theory Spec2Isabelle
  imports Main "HOL-Library.Word"
begin

unbundle bit_operations_syntax

section \<open>Addresses: Go's \<open>net.IP\<close> as a byte slice\<close>

text \<open>
  \<open>net.IP\<close> is a byte slice; every operation the driver uses on it looks only at its
  length and bytes, so the nil slice and the empty slice are both the empty list here.
  Where the driver tests a slice against \<open>nil\<close>, the model uses \<open>option\<close>.
\<close>

type_synonym byte = "8 word"
type_synonym IP = "byte list"

definition v4InV6Prefix :: "byte list" where
  "v4InV6Prefix = [0, 0, 0, 0, 0, 0, 0, 0, 0, 0, 0xff, 0xff]"

definition isZeros :: "byte list \<Rightarrow> bool" where
  "isZeros p = list_all (\<lambda>b. b = 0) p"

text \<open>\<open>IP.To4\<close>: a 4-byte slice is returned as it is, a 16-byte IPv4-mapped one is cut
  to its last four bytes, anything else gives nil.\<close>

definition To4 :: "IP \<Rightarrow> IP option" where
  "To4 ip =
     (if length ip = 4 then Some ip
      else if length ip = 16 \<and> isZeros (take 10 ip) \<and> ip ! 10 = 0xff \<and> ip ! 11 = 0xff
        then Some (drop 12 ip)
      else None)"

text \<open>\<open>IP.To16\<close>: a 4-byte slice is prefixed to its IPv4-mapped form, a 16-byte slice is
  returned as it is, anything else gives nil.\<close>

definition To16 :: "IP \<Rightarrow> IP option" where
  "To16 ip =
     (if length ip = 4 then Some (v4InV6Prefix @ ip)
      else if length ip = 16 then Some ip
      else None)"

text \<open>\<open>IP.Equal\<close>: equal slices of one length, or an IPv4 address against its
  IPv4-mapped 16-byte form.\<close>

definition Equal :: "IP \<Rightarrow> IP \<Rightarrow> bool" where
  "Equal ip x =
     (if length ip = length x then ip = x
      else if length ip = 4 \<and> length x = 16 then take 12 x = v4InV6Prefix \<and> ip = drop 12 x
      else if length ip = 16 \<and> length x = 4 then take 12 ip = v4InV6Prefix \<and> drop 12 ip = x
      else False)"

section \<open>Bridge MTU\<close>

datatype error = Error string

text \<open>
  \<open>getOptimalBridgeMTU\<close> first calls \<open>getUnderlayInfo\<close>, which asks the host for the
  tunnel encapsulation address and the MTU of the interface carrying it; its result is
  the argument here.
\<close>

definition getOptimalBridgeMTU :: "error + (32 word \<times> IP) \<Rightarrow> error + 32 word" where
  "getOptimalBridgeMTU underlayInfo =
     (case underlayInfo of
        Inl (Error e) \<Rightarrow> Inl (Error (''Failed getting OVN underlay info: '' @ e))
      | Inr (underlayMTU, encapIP) \<Rightarrow>
          if To4 encapIP = None then
            (if underlayMTU \<ge> 1578 then Inr 1500 else Inr 1422)
          else
            (if underlayMTU \<ge> 1558 then Inr 1500 else Inr 1442))"

section \<open>Forwards: flattening port maps into load-balancer VIPs\<close>

text \<open>
  \<open>forwardPortMap\<close> is declared outside this file of the driver; its fields are the
  ones \<open>forwardFlattenVIPs\<close> reads. Ports are \<open>uint64\<close>.
\<close>

record forwardTarget =
  address :: IP
  ports :: "64 word list"

record forwardPortMap =
  listenPorts :: "64 word list"
  protocol :: string
  target :: forwardTarget

record OVNLoadBalancerTarget =
  Address :: IP
  Port :: "64 word"

record OVNLoadBalancerVIP =
  Protocol :: string
  ListenAddress :: IP
  ListenPort :: "64 word"
  Targets :: "OVNLoadBalancerTarget list"

text \<open>Go panics on a slice index out of range: the index and the slice's length.\<close>

datatype panic = IndexOutOfRange nat nat

text \<open>The target port chosen for the listen port \<open>lp\<close> at index \<open>i\<close> of a port map.\<close>

definition targetPortOf :: "forwardPortMap \<Rightarrow> nat \<Rightarrow> 64 word \<Rightarrow> panic + 64 word" where
  "targetPortOf portMap i lp =
     (let targetPortsLen = length (ports (target portMap)) in
      if targetPortsLen = 1 then Inr (ports (target portMap) ! 0)
      else if targetPortsLen > 1 then
        (if i < targetPortsLen then Inr (ports (target portMap) ! i)
         else Inl (IndexOutOfRange i targetPortsLen))
      else Inr lp)"

definition portVIP :: "IP \<Rightarrow> forwardPortMap \<Rightarrow> 64 word \<Rightarrow> 64 word \<Rightarrow> OVNLoadBalancerVIP" where
  "portVIP listenAddress portMap lp targetPort =
     \<lparr>Protocol = protocol portMap, ListenAddress = listenAddress, ListenPort = lp,
      Targets = [\<lparr>Address = address (target portMap), Port = targetPort\<rparr>]\<rparr>"

text \<open>The inner loop, over the listen ports of one port map, from index \<open>i\<close> on.\<close>

fun flattenListenPorts ::
  "IP \<Rightarrow> forwardPortMap \<Rightarrow> nat \<Rightarrow> 64 word list \<Rightarrow> OVNLoadBalancerVIP list
     \<Rightarrow> panic + OVNLoadBalancerVIP list" where
  "flattenListenPorts listenAddress portMap i [] vips = Inr vips"
| "flattenListenPorts listenAddress portMap i (lp # lps) vips =
     (case targetPortOf portMap i lp of
        Inl p \<Rightarrow> Inl p
      | Inr targetPort \<Rightarrow>
          flattenListenPorts listenAddress portMap (Suc i) lps
            (vips @ [portVIP listenAddress portMap lp targetPort]))"

text \<open>The outer loop, over the port maps.\<close>

fun flattenPortMaps ::
  "IP \<Rightarrow> forwardPortMap list \<Rightarrow> OVNLoadBalancerVIP list \<Rightarrow> panic + OVNLoadBalancerVIP list" where
  "flattenPortMaps listenAddress [] vips = Inr vips"
| "flattenPortMaps listenAddress (portMap # portMaps) vips =
     (case flattenListenPorts listenAddress portMap 0 (listenPorts portMap) vips of
        Inl p \<Rightarrow> Inl p
      | Inr vips' \<Rightarrow> flattenPortMaps listenAddress portMaps vips')"

definition forwardFlattenVIPs ::
  "IP \<Rightarrow> IP option \<Rightarrow> forwardPortMap list \<Rightarrow> panic + OVNLoadBalancerVIP list" where
  "forwardFlattenVIPs listenAddress defaultTargetAddress portMaps =
     flattenPortMaps listenAddress portMaps
       (case defaultTargetAddress of
          None \<Rightarrow> []
        | Some a \<Rightarrow> [\<lparr>Protocol = [], ListenAddress = listenAddress, ListenPort = 0,
                       Targets = [\<lparr>Address = a, Port = 0\<rparr>]\<rparr>])"

text \<open>
  The mapping rule in the specification's words: one target port serves every listen port;
  as many target ports as listen ports map by index; otherwise the listen port is its own
  target port.
\<close>

definition spec_targetPort :: "forwardPortMap \<Rightarrow> nat \<Rightarrow> 64 word \<Rightarrow> 64 word" where
  "spec_targetPort portMap i lp =
     (if length (ports (target portMap)) = 1 then ports (target portMap) ! 0
      else if length (ports (target portMap)) = length (listenPorts portMap)
        then ports (target portMap) ! i
      else lp)"

definition spec_portMapVIPs :: "IP \<Rightarrow> forwardPortMap \<Rightarrow> OVNLoadBalancerVIP list" where
  "spec_portMapVIPs listenAddress portMap =
     map (\<lambda>(i, lp). portVIP listenAddress portMap lp (spec_targetPort portMap i lp))
       (enumerate 0 (listenPorts portMap))"

text \<open>The rule the code follows, for a port map whose indexing stays in range.\<close>

definition code_targetPort :: "forwardPortMap \<Rightarrow> nat \<Rightarrow> 64 word \<Rightarrow> 64 word" where
  "code_targetPort portMap i lp =
     (if length (ports (target portMap)) = 1 then ports (target portMap) ! 0
      else if length (ports (target portMap)) > 1 then ports (target portMap) ! i
      else lp)"

definition code_portMapVIPs :: "IP \<Rightarrow> forwardPortMap \<Rightarrow> OVNLoadBalancerVIP list" where
  "code_portMapVIPs listenAddress portMap =
     map (\<lambda>(i, lp). portVIP listenAddress portMap lp (code_targetPort portMap i lp))
       (enumerate 0 (listenPorts portMap))"

definition defaultVIPs :: "IP \<Rightarrow> IP option \<Rightarrow> OVNLoadBalancerVIP list" where
  "defaultVIPs listenAddress defaultTargetAddress =
     (case defaultTargetAddress of
        None \<Rightarrow> []
      | Some a \<Rightarrow> [\<lparr>Protocol = [], ListenAddress = listenAddress, ListenPort = 0,
                     Targets = [\<lparr>Address = a, Port = 0\<rparr>]\<rparr>])"

text \<open>A port map is in range when it has at most one target port or at least as many
  target ports as listen ports.\<close>

definition portsInRange :: "forwardPortMap \<Rightarrow> bool" where
  "portsInRange portMap =
     (length (ports (target portMap)) \<le> 1 \<or>
      length (listenPorts portMap) \<le> length (ports (target portMap)))"

text \<open>
  The port maps the function is given are built by \<open>forwardValidate\<close> (outside this
  file of the driver) at each of its call sites: a port map has no target port, one
  target port, or as many target ports as listen ports.
\<close>

definition portCountsMatch :: "forwardPortMap \<Rightarrow> bool" where
  "portCountsMatch portMap =
     (length (ports (target portMap)) = 0 \<or>
      length (ports (target portMap)) = 1 \<or>
      length (ports (target portMap)) = length (listenPorts portMap))"

section \<open>Configuration maps\<close>

text \<open>A Go \<open>map[string]string\<close>; reading a missing key gives the empty string.\<close>

type_synonym config = "string \<rightharpoonup> string"

definition cfg :: "config \<Rightarrow> string \<Rightarrow> string" where
  "cfg c k = (case c k of None \<Rightarrow> [] | Some v \<Rightarrow> v)"

section \<open>Isolated networks: the guard of \<open>ForwardCreate\<close> and \<open>LoadBalancerCreate\<close>\<close>

text \<open>
  Both functions start with the same test of the network's \<open>network\<close> key. Everything
  after the test (existence check, validation, database transaction, load-balancer
  creation, notification, BGP refresh) acts on the cluster database and the control plane;
  it is the parameter \<open>body\<close>, a function from the state of both to an optional error and
  the new state. The request and the client type are the body's first two arguments.
\<close>

definition ForwardCreate ::
  "config \<Rightarrow> ('req \<Rightarrow> 'ct \<Rightarrow> 's \<Rightarrow> error option \<times> 's) \<Rightarrow> 'req \<Rightarrow> 'ct \<Rightarrow> 's
     \<Rightarrow> error option \<times> 's" where
  "ForwardCreate n_config body forward clientType st =
     (if cfg n_config ''network'' = ''none''
      then (Some (Error ''Isolated OVN network cannot use network forwards''), st)
      else body forward clientType st)"

definition LoadBalancerCreate ::
  "config \<Rightarrow> ('req \<Rightarrow> 'ct \<Rightarrow> 's \<Rightarrow> error option \<times> 's) \<Rightarrow> 'req \<Rightarrow> 'ct \<Rightarrow> 's
     \<Rightarrow> error option \<times> 's" where
  "LoadBalancerCreate n_config body loadBalancer clientType st =
     (if cfg n_config ''network'' = ''none''
      then (Some (Error ''Isolated OVN network cannot use network load balancers''), st)
      else body loadBalancer clientType st)"

section \<open>Validation: the composite checks on \<open>ipv4.address\<close> and \<open>ipv6.address\<close>\<close>

text \<open>\<open>net.IPNet\<close>: the network address and the mask, both byte slices.\<close>

record IPNet =
  NetIP :: IP
  Mask :: "byte list"

text \<open>
  \<open>IPMask.Size\<close> of the Go library. The loop over a byte that is not \<open>0xff\<close> counts its
  leading one bits, shifting the byte left; after eight shifts a byte is zero, so eight
  rounds are all the loop can make. A mask that is not ones followed by zeros has length
  \<open>-1\<close>, and \<open>Size\<close> is then \<open>(0, 0)\<close>.
\<close>

fun leadingOnes :: "nat \<Rightarrow> byte \<Rightarrow> int \<Rightarrow> int \<times> byte" where
  "leadingOnes 0 v n = (n, v)"
| "leadingOnes (Suc k) v n =
     (if v AND 0x80 \<noteq> 0 then leadingOnes k (push_bit 1 v) (n + 1) else (n, v))"

fun simpleMaskLength :: "byte list \<Rightarrow> int" where
  "simpleMaskLength [] = 0"
| "simpleMaskLength (v # rest) =
     (if v = 0xff then
        (let r = simpleMaskLength rest in if r = -1 then -1 else 8 + r)
      else
        (case leadingOnes 8 v 0 of
           (n, v') \<Rightarrow> if v' \<noteq> 0 then -1 else if \<not> isZeros rest then -1 else n))"

definition Size :: "byte list \<Rightarrow> int \<times> int" where
  "Size m =
     (let ones = simpleMaskLength m; bits = int (length m) * 8 in
      if ones = -1 then (0, 0) else (ones, bits))"

text \<open>
  The driver compares two addresses by printing each with \<open>IP.String\<close>, reading the text
  back with \<open>netip.ParseAddr\<close> and calling \<open>Compare\<close>. \<open>String\<close> prints an address that
  has a 4-byte form in dotted decimal, another 16-byte address as IPv6 text, and anything
  else as text that \<open>ParseAddr\<close> refuses; \<open>ParseAddr\<close> gives a 4-byte address for dotted
  decimal and a 16-byte one for IPv6 text, and \<open>Compare\<close> is 0 exactly on equal
  addresses of one family. \<open>netipOfIP\<close> is that round trip.
\<close>

definition netipOfIP :: "IP \<Rightarrow> error + IP" where
  "netipOfIP ip =
     (case To4 ip of
        Some v4 \<Rightarrow> Inr v4
      | None \<Rightarrow> if length ip = 16 then Inr ip else Inl (Error ''unable to parse IP''))"

text \<open>
  What \<open>Validate\<close> calls and this file of the driver does not define:
  the per-key rules (\<open>n.validate(config, rules)\<close>), the zone name check, \<open>net.ParseCIDR\<close>
  (address and subnet, or nothing when the text is no CIDR), \<open>dhcpalloc.GetIP\<close>, and
  every check of \<open>Validate\<close> after the IPv6 subnet size (project, uplink, external
  subnets, forwards, load balancers, peers).
\<close>

record validate_env =
  validate_rules :: "config \<Rightarrow> error option"
  validateZoneNames :: "config \<Rightarrow> error option"
  ParseCIDR :: "string \<Rightarrow> (IP \<times> IPNet) option"
  GetIP :: "IPNet \<Rightarrow> int \<Rightarrow> IP"
  validate_rest :: "config \<Rightarrow> error option"

text \<open>The error of the reserved-address check carries the reserved address:
  \<open>'ipv4.address' cannot be set to %s because it is reserved for OVN load-balancer health
  checks\<close>.\<close>

datatype verror = Err error | ErrReservedForHealthChecks IP

text \<open>The check that \<open>ipv4.address\<close> is not the address \<open>GetIP(ipv4Net, -2)\<close>.\<close>

definition ipv4ReservedCheck :: "validate_env \<Rightarrow> config \<Rightarrow> verror option" where
  "ipv4ReservedCheck env c =
     (if cfg c ''ipv4.address'' \<noteq> [] then
        (case ParseCIDR env (cfg c ''ipv4.address'') of
           None \<Rightarrow> None
         | Some (ipv4Addr, ipv4Net) \<Rightarrow>
             (case netipOfIP (GetIP env ipv4Net (-2)) of
                Inl e \<Rightarrow> Some (Err e)
              | Inr ovnRouter \<Rightarrow>
                  (case netipOfIP ipv4Addr of
                     Inl e \<Rightarrow> Some (Err e)
                   | Inr addr \<Rightarrow>
                       if ovnRouter = addr then Some (ErrReservedForHealthChecks ovnRouter)
                       else None)))
      else None)"

text \<open>The check that an IPv6 subnet is at least a /64.\<close>

definition ipv6SubnetCheck :: "validate_env \<Rightarrow> config \<Rightarrow> verror option" where
  "ipv6SubnetCheck env c =
     (case ParseCIDR env (cfg c ''ipv6.address'') of
        None \<Rightarrow> None
      | Some (_, ipv6Net) \<Rightarrow>
          if fst (Size (Mask ipv6Net)) > 64
          then Some (Err (Error ''IPv6 subnet must be at least a /64''))
          else None)"

text \<open>\<open>Validate\<close>: the checks in the order of the source, the first error returned.\<close>

definition Validate :: "validate_env \<Rightarrow> config \<Rightarrow> verror option" where
  "Validate env c =
     (case validate_rules env c of
        Some e \<Rightarrow> Some (Err e)
      | None \<Rightarrow>
     (case validateZoneNames env c of
        Some e \<Rightarrow> Some (Err e)
      | None \<Rightarrow>
     (case ipv4ReservedCheck env c of
        Some e \<Rightarrow> Some e
      | None \<Rightarrow>
     (case ipv6SubnetCheck env c of
        Some e \<Rightarrow> Some e
      | None \<Rightarrow> map_option Err (validate_rest env c)))))"

text \<open>\<open>Validate\<close> with the IPv6 subnet size check left out, and with the reserved address
  check left out: what the other checks alone decide.\<close>

definition Validate_without_ipv6SubnetCheck :: "validate_env \<Rightarrow> config \<Rightarrow> verror option" where
  "Validate_without_ipv6SubnetCheck env c =
     (case validate_rules env c of
        Some e \<Rightarrow> Some (Err e)
      | None \<Rightarrow>
     (case validateZoneNames env c of
        Some e \<Rightarrow> Some (Err e)
      | None \<Rightarrow>
     (case ipv4ReservedCheck env c of
        Some e \<Rightarrow> Some e
      | None \<Rightarrow> map_option Err (validate_rest env c))))"

definition Validate_without_ipv4ReservedCheck :: "validate_env \<Rightarrow> config \<Rightarrow> verror option" where
  "Validate_without_ipv4ReservedCheck env c =
     (case validate_rules env c of
        Some e \<Rightarrow> Some (Err e)
      | None \<Rightarrow>
     (case validateZoneNames env c of
        Some e \<Rightarrow> Some (Err e)
      | None \<Rightarrow>
     (case ipv6SubnetCheck env c of
        Some e \<Rightarrow> Some e
      | None \<Rightarrow> map_option Err (validate_rest env c))))"

text \<open>
  Modelled from the spec: \<open>dhcpalloc.GetIP\<close> is not in the sources at hand. The
  specification has the address at offset -2 of the IPv4 subnet as the one reserved for
  health checks, counted from the end of the subnet: a negative host number is added to
  the subnet's base address plus the subnet's size. An IPv4 subnet gives a 4-byte
  address.
\<close>

definition bytesToNat :: "byte list \<Rightarrow> nat" where
  "bytesToNat bs = foldl (\<lambda>acc b. acc * 256 + unat b) 0 bs"

definition natToBytes4 :: "nat \<Rightarrow> byte list" where
  "natToBytes4 n =
     [of_nat (n div 16777216), of_nat (n div 65536), of_nat (n div 256), of_nat n]"

definition spec_GetIP :: "IPNet \<Rightarrow> int \<Rightarrow> IP" where
  "spec_GetIP subnet host =
     (let base = int (bytesToNat (case To4 (NetIP subnet) of Some v \<Rightarrow> v | None \<Rightarrow> NetIP subnet));
          (ones, bits) = Size (Mask subnet);
          count = (if host < 0 then 2 ^ nat (bits - ones) + host else host)
      in natToBytes4 (nat (base + count)))"

text \<open>
  A concrete environment for running \<open>Validate\<close>: every other check passes,
  \<open>ParseCIDR\<close> is the library function tabulated on the texts used below, and \<open>GetIP\<close>
  is \<open>spec_GetIP\<close>.
\<close>

definition example_ParseCIDR :: "string \<Rightarrow> (IP \<times> IPNet) option" where
  "example_ParseCIDR s =
     (if s = ''10.0.0.254/24'' then
        Some ([0, 0, 0, 0, 0, 0, 0, 0, 0, 0, 0xff, 0xff, 10, 0, 0, 254],
              \<lparr>NetIP = [10, 0, 0, 0], Mask = [0xff, 0xff, 0xff, 0]\<rparr>)
      else if s = ''10.0.0.1/24'' then
        Some ([0, 0, 0, 0, 0, 0, 0, 0, 0, 0, 0xff, 0xff, 10, 0, 0, 1],
              \<lparr>NetIP = [10, 0, 0, 0], Mask = [0xff, 0xff, 0xff, 0]\<rparr>)
      else if s = ''fd42::1/80'' then
        Some ([0xfd, 0x42, 0, 0, 0, 0, 0, 0, 0, 0, 0, 0, 0, 0, 0, 1],
              \<lparr>NetIP = [0xfd, 0x42, 0, 0, 0, 0, 0, 0, 0, 0, 0, 0, 0, 0, 0, 0],
               Mask = [0xff, 0xff, 0xff, 0xff, 0xff, 0xff, 0xff, 0xff, 0xff, 0xff,
                       0, 0, 0, 0, 0, 0]\<rparr>)
      else if s = ''fd42::1/64'' then
        Some ([0xfd, 0x42, 0, 0, 0, 0, 0, 0, 0, 0, 0, 0, 0, 0, 0, 1],
              \<lparr>NetIP = [0xfd, 0x42, 0, 0, 0, 0, 0, 0, 0, 0, 0, 0, 0, 0, 0, 0],
               Mask = [0xff, 0xff, 0xff, 0xff, 0xff, 0xff, 0xff, 0xff,
                       0, 0, 0, 0, 0, 0, 0, 0]\<rparr>)
      else if s = ''fd42::1/48'' then
        Some ([0xfd, 0x42, 0, 0, 0, 0, 0, 0, 0, 0, 0, 0, 0, 0, 0, 1],
              \<lparr>NetIP = [0xfd, 0x42, 0, 0, 0, 0, 0, 0, 0, 0, 0, 0, 0, 0, 0, 0],
               Mask = [0xff, 0xff, 0xff, 0xff, 0xff, 0xff, 0, 0,
                       0, 0, 0, 0, 0, 0, 0, 0]\<rparr>)
      else None)"

definition example_env :: validate_env where
  "example_env =
     \<lparr>validate_rules = (\<lambda>_. None), validateZoneNames = (\<lambda>_. None),
      ParseCIDR = example_ParseCIDR, GetIP = spec_GetIP, validate_rest = (\<lambda>_. None)\<rparr>"

section \<open>Uplink address allocation\<close>

text \<open>
  \<open>iprange.Range\<close>: a start address and an end address; a single address has a nil
  end.
\<close>

record Range =
  Start :: IP
  End :: "IP option"

text \<open>
  \<open>big.Int.SetBytes\<close> reads a byte slice as a big-endian unsigned integer
  (\<open>bytesToNat\<close> above); \<open>big.Int.Bytes\<close> writes an integer as the shortest big-endian
  byte slice, without leading zero bytes, and zero as the empty slice.
\<close>

fun Bytes :: "nat \<Rightarrow> byte list" where
  "Bytes n = (if n = 0 then [] else Bytes (n div 256) @ [of_nat (n mod 256)])"

declare Bytes.simps [simp del]

text \<open>The address of a range bound in its native form: \<open>To4\<close>, else \<open>To16\<close>; both are
  nil for a nil bound or one of another length.\<close>

definition nativeIP :: "IP \<Rightarrow> byte list" where
  "nativeIP ip =
     (case To4 ip of
        Some v4 \<Rightarrow> v4
      | None \<Rightarrow> (case To16 ip of Some v16 \<Rightarrow> v16 | None \<Rightarrow> []))"

text \<open>
  The inner loop of \<open>uplinkAllocateIP\<close>: from \<open>startBig\<close> up to \<open>endBig\<close>, the first
  integer whose bytes, taken as an address, are \<open>Equal\<close> to no allocated address; nothing
  when the range is passed.
\<close>

function scanRange :: "nat \<Rightarrow> nat \<Rightarrow> IP list \<Rightarrow> IP option" where
  "scanRange startBig endBig allAllocated =
     (if startBig > endBig then None
      else
        (let ip = Bytes startBig in
         if list_ex (Equal ip) allAllocated
         then scanRange (startBig + 1) endBig allAllocated
         else Some ip))"
  by pat_completeness auto
termination
  by (relation "measure (\<lambda>(startBig, endBig, allAllocated). Suc endBig - startBig)") auto

declare scanRange.simps [simp del]

fun uplinkAllocateIP :: "Range list \<Rightarrow> IP list \<Rightarrow> error + IP" where
  "uplinkAllocateIP [] allAllocated = Inl (Error ''No free IPs available'')"
| "uplinkAllocateIP (ipRange # ipRanges) allAllocated =
     (let startBig = bytesToNat (nativeIP (Start ipRange));
          endBig = bytesToNat (case End ipRange of None \<Rightarrow> [] | Some e \<Rightarrow> nativeIP e)
      in case scanRange startBig endBig allAllocated of
           Some ip \<Rightarrow> Inr ip
         | None \<Rightarrow> uplinkAllocateIP ipRanges allAllocated)"

section \<open>Instance NIC ports: DHCPv4 reservations and the sticky address\<close>

text \<open>\<open>fmt.Errorf("...: %w", err)\<close>: the message is put in front of the wrapped one.\<close>

fun wrap :: "string \<Rightarrow> error \<Rightarrow> error" where
  "wrap msg (Error e) = Error (msg @ e)"

text \<open>\<open>hasDHCPv4Reservation\<close>: whether the list holds a single-address entry (nil end)
  whose start is \<open>Equal\<close> to the address.\<close>

fun hasDHCPv4Reservation :: "Range list \<Rightarrow> IP \<Rightarrow> bool" where
  "hasDHCPv4Reservation [] ip = False"
| "hasDHCPv4Reservation (dhcpReservation # dhcpReservations) ip =
     (if Equal (Start dhcpReservation) ip \<and> End dhcpReservation = None then True
      else hasDHCPv4Reservation dhcpReservations ip)"

record OVNInstanceNICSetupOpts =
  InstanceUUID :: string
  DeviceName :: string
  DeviceConfig :: config
  UplinkConfig :: config
  DNSName :: string
  LastStateIPs :: "IP list"

record OVNSwitchPortOpts =
  DHCPv4OptsID :: string
  DHCPv6OptsID :: string
  MAC :: "byte list"
  IPV4 :: string
  IPV6 :: string
  Parent :: string
  VLAN :: "16 word"
  Location :: string
  Promiscuous :: bool

text \<open>One answer of \<open>GetLogicalSwitchPortDynamicIPs\<close>: addresses, the not-found error, or
  another error.\<close>

datatype poll = PollIPs "IP list" | PollNotFound | PollError error

text \<open>
  What the two functions call and this file of the driver does not define. First the
  library and the driver's helpers: \<open>net.ParseMAC\<close>, \<open>net.ParseIP\<close> (nothing when the
  text is no address), \<open>IP.String\<close>, \<open>net.ParseCIDR\<close> (its subnet), \<open>SubnetContainsIP\<close>,
  \<open>IPInSlice\<close>, \<open>util.IsTrue\<close>, \<open>eui64.ParseMAC\<close>, \<open>strconv.ParseUint\<close> at 16 bits,
  the route parser (its error), the port name, the domain name, the server name, and the
  network's DHCP subnets and DHCP option UUIDs. Then the answers of the control plane to
  each call; \<open>GetLogicalSwitchPortDynamicIPs\<close> is asked repeatedly and answers by attempt
  number.
\<close>

record nic_env =
  ParseMAC :: "string \<Rightarrow> error + byte list"
  ParseIP :: "string \<Rightarrow> IP option"
  IPString :: "IP \<Rightarrow> string"
  ParseCIDRNet :: "string \<Rightarrow> error + IPNet"
  SubnetContainsIP :: "IPNet \<Rightarrow> IP \<Rightarrow> bool"
  IPInSlice :: "IP \<Rightarrow> IP list \<Rightarrow> bool"
  IsTrue :: "string \<Rightarrow> bool"
  eui64ParseMAC :: "IP \<Rightarrow> byte list \<Rightarrow> error + IP"
  ParseUint16 :: "string \<Rightarrow> error + 16 word"
  instanceDevicePortRoutesParse :: "config \<Rightarrow> error option"
  getInstanceDevicePortName :: "string \<Rightarrow> string \<Rightarrow> string"
  getDomainName :: string
  ServerName :: string
  DHCPv4Subnet :: "IPNet option"
  DHCPv6Subnet :: "IPNet option"
  getDhcpOptionUUIDs :: "error + (string \<times> string)"
  GetLogicalSwitchDHCPv4Revervations :: "error + Range list"
  GetLogicalSwitchIPs :: "error + IP list list"
  CreateLogicalSwitchPort :: "string \<Rightarrow> OVNSwitchPortOpts \<Rightarrow> error option"
  CreateLogicalRouterNAT :: "IPNet \<Rightarrow> IP \<Rightarrow> error option"
  GetLogicalSwitchPortDynamicIPs :: "string \<Rightarrow> nat \<Rightarrow> poll"
  UpdateLogicalSwitchPortDNS :: "string \<Rightarrow> string \<Rightarrow> IP list \<Rightarrow> error + string"
  UpdateLogicalSwitchDHCPv4Revervations :: "Range list \<Rightarrow> error option"

text \<open>
  What a call leaves behind, as far as this development follows it: the port request
  passed to \<open>CreateLogicalSwitchPort\<close> (when that call is reached), the reservation list
  passed to \<open>UpdateLogicalSwitchDHCPv4Revervations\<close> (when that call is reached), and the
  error returned, if any.
\<close>

record nic_trace =
  requested :: "(string \<times> OVNSwitchPortOpts) option"
  written :: "Range list option"
  failure :: "error option"

subsection \<open>\<open>InstanceDevicePortAdd\<close>\<close>

definition InstanceDevicePortAdd :: "nic_env \<Rightarrow> string \<Rightarrow> string \<Rightarrow> config \<Rightarrow> nic_trace" where
  "InstanceDevicePortAdd env instanceUUID deviceName deviceConfig =
     (let instancePortName = getInstanceDevicePortName env instanceUUID deviceName in
      case UpdateLogicalSwitchPortDNS env instancePortName [] [] of
        Inl e \<Rightarrow>
          \<lparr>requested = None, written = None,
           failure = Some (wrap ''Failed adding DNS record: '' e)\<rparr>
      | Inr dnsUUID \<Rightarrow>
          if cfg deviceConfig ''ipv4.address'' \<noteq> [] then
            (case ParseIP env (cfg deviceConfig ''ipv4.address'') of
               None \<Rightarrow> \<lparr>requested = None, written = None, failure = None\<rparr>
             | Some ip \<Rightarrow>
                 (case GetLogicalSwitchDHCPv4Revervations env of
                    Inl e \<Rightarrow>
                      \<lparr>requested = None, written = None,
                       failure = Some (wrap ''Failed getting DHCPv4 reservations: '' e)\<rparr>
                  | Inr dhcpReservations \<Rightarrow>
                      if \<not> hasDHCPv4Reservation dhcpReservations ip then
                        (let dhcpReservations' = dhcpReservations @ [\<lparr>Start = ip, End = None\<rparr>] in
                         case UpdateLogicalSwitchDHCPv4Revervations env dhcpReservations' of
                           Some e \<Rightarrow>
                             \<lparr>requested = None, written = Some dhcpReservations',
                              failure = Some (wrap (''Failed adding DHCPv4 reservation for ''
                                                    @ IPString env ip @ '': '') e)\<rparr>
                         | None \<Rightarrow>
                             \<lparr>requested = None, written = Some dhcpReservations',
                              failure = None\<rparr>)
                      else \<lparr>requested = None, written = None, failure = None\<rparr>))
          else \<lparr>requested = None, written = None, failure = None\<rparr>)"

subsection \<open>\<open>InstanceDevicePortStart\<close>, up to the port request\<close>

text \<open>The search of the NIC's last addresses for one to keep: the first IPv4 address
  inside the DHCPv4 subnet (the loop stops at it).\<close>

definition stickyCandidate :: "nic_env \<Rightarrow> IPNet \<Rightarrow> IP list \<Rightarrow> IP option" where
  "stickyCandidate env dhcpv4Subnet lastStateIPs =
     find (\<lambda>entry. To4 entry \<noteq> None \<and> SubnetContainsIP env dhcpv4Subnet entry) lastStateIPs"

text \<open>
  The block that settles the IPv4 address to request, given the reservations read and the
  DHCPv4 subnet: the configured static address, or the sticky address when it is found,
  not reserved and on no existing port.
\<close>

definition requestedIPv4 ::
  "nic_env \<Rightarrow> OVNInstanceNICSetupOpts \<Rightarrow> Range list \<Rightarrow> IPNet \<Rightarrow> error + string" where
  "requestedIPv4 env opts dhcpReservations dhcpv4Subnet =
     (let ipv4 = cfg (DeviceConfig opts) ''ipv4.address'';
          dhcpV4StickyIP =
            (if cfg (DeviceConfig opts) ''ipv4.address'' = []
             then stickyCandidate env dhcpv4Subnet (LastStateIPs opts) else None)
      in case dhcpV4StickyIP of
           None \<Rightarrow> Inr ipv4
         | Some sticky \<Rightarrow>
             if IPString env sticky \<noteq> ipv4 then
               (if \<not> hasDHCPv4Reservation dhcpReservations sticky then
                  (case GetLogicalSwitchIPs env of
                     Inl e \<Rightarrow> Inl (wrap ''Failed getting existing switch port IPs: '' e)
                   | Inr existingPortIPs \<Rightarrow>
                       if list_ex (IPInSlice env sticky) existingPortIPs then Inr ipv4
                       else Inr (IPString env sticky))
                else Inr ipv4)
             else Inr ipv4)"

text \<open>The block that settles the IPv6 address to request: the configured one, or the
  EUI64 address of the MAC when only IPv4 is static.\<close>

definition requestedIPv6 ::
  "nic_env \<Rightarrow> OVNInstanceNICSetupOpts \<Rightarrow> byte list \<Rightarrow> string \<Rightarrow> IPNet \<Rightarrow> error + string" where
  "requestedIPv6 env opts mac ipv4 dhcpv6Subnet =
     (let ipv6 = cfg (DeviceConfig opts) ''ipv6.address'' in
      if ipv4 \<noteq> [] \<and> ipv6 = [] then
        (case eui64ParseMAC env (NetIP dhcpv6Subnet) mac of
           Inl e \<Rightarrow> Inl (wrap ''Failed generating EUI64 for instance port: '' e)
         | Inr eui64IP \<Rightarrow> Inr (IPString env eui64IP))
      else Inr ipv6)"

record port_request =
  portName :: string
  portOpts :: OVNSwitchPortOpts
  readReservations :: "Range list"

definition InstanceDevicePortStart_request ::
  "nic_env \<Rightarrow> OVNInstanceNICSetupOpts \<Rightarrow> error + port_request" where
  "InstanceDevicePortStart_request env opts =
     (if InstanceUUID opts = [] then Inl (Error ''Instance UUID is required'')
      else case ParseMAC env (cfg (DeviceConfig opts) ''hwaddr'') of
        Inl e \<Rightarrow> Inl e
      | Inr mac \<Rightarrow>
      (case instanceDevicePortRoutesParse env (DeviceConfig opts) of
        Some e \<Rightarrow> Inl (wrap ''Failed parsing NIC device routes: '' e)
      | None \<Rightarrow>
      (case GetLogicalSwitchDHCPv4Revervations env of
        Inl e \<Rightarrow> Inl (wrap ''Failed getting DHCPv4 reservations: '' e)
      | Inr dhcpReservations \<Rightarrow>
      (case (if DHCPv4Subnet env \<noteq> None \<or> DHCPv6Subnet env \<noteq> None
             then getDhcpOptionUUIDs env else Inr ([], [])) of
        Inl e \<Rightarrow> Inl e
      | Inr (dhcpV4UUID, dhcpV6UUID) \<Rightarrow>
      (case (case DHCPv4Subnet env of
               None \<Rightarrow> Inr (cfg (DeviceConfig opts) ''ipv4.address'')
             | Some dhcpv4Subnet \<Rightarrow>
                 if dhcpV4UUID = []
                 then Inl (Error ''Could not find DHCPv4 options for instance port for subnet'')
                 else requestedIPv4 env opts dhcpReservations dhcpv4Subnet) of
        Inl e \<Rightarrow> Inl e
      | Inr ipv4 \<Rightarrow>
      (case (case DHCPv6Subnet env of
               None \<Rightarrow> Inr (cfg (DeviceConfig opts) ''ipv6.address'')
             | Some dhcpv6Subnet \<Rightarrow>
                 if dhcpV6UUID = []
                 then Inl (Error ''Could not find DHCPv6 options for instance port for subnet'')
                 else requestedIPv6 env opts mac ipv4 dhcpv6Subnet) of
        Inl e \<Rightarrow> Inl e
      | Inr ipv6 \<Rightarrow>
      (case (if cfg (DeviceConfig opts) ''nested'' \<noteq> [] then
               (case ParseUint16 env (cfg (DeviceConfig opts) ''vlan'') of
                  Inl e \<Rightarrow> Inl (wrap ''Invalid VLAN ID: '' e)
                | Inr vlan \<Rightarrow>
                    Inr (getInstanceDevicePortName env (InstanceUUID opts)
                           (cfg (DeviceConfig opts) ''nested''), vlan))
             else Inr ([], 0)) of
        Inl e \<Rightarrow> Inl e
      | Inr (nestedPortParentName, nestedPortVLAN) \<Rightarrow>
          Inr \<lparr>portName = getInstanceDevicePortName env (InstanceUUID opts) (DeviceName opts),
               portOpts = \<lparr>DHCPv4OptsID = dhcpV4UUID, DHCPv6OptsID = dhcpV6UUID, MAC = mac,
                           IPV4 = ipv4, IPV6 = ipv6, Parent = nestedPortParentName,
                           VLAN = nestedPortVLAN, Location = ServerName env,
                           Promiscuous =
                             IsTrue env (cfg (DeviceConfig opts) ''security.promiscuous'')\<rparr>,
               readReservations = dhcpReservations\<rparr>)))))))"

subsection \<open>\<open>InstanceDevicePortStart\<close>, from the port request to the reservation\<close>

text \<open>The addresses kept for DNS: the first IPv4 one, the first IPv6 one, and all of
  them in order.\<close>

record dns_ips =
  dnsIPv4 :: "IP option"
  dnsIPv6 :: "IP option"
  dnsIPs :: "IP list"

text \<open>\<open>checkAndStoreIP\<close>, the closure of the source; a nil address changes nothing.\<close>

definition checkAndStoreIP :: "IP option \<Rightarrow> dns_ips \<Rightarrow> dns_ips" where
  "checkAndStoreIP ip d =
     (case ip of
        None \<Rightarrow> d
      | Some a \<Rightarrow>
          (let isV4 = (To4 a \<noteq> None);
               d' = (if dnsIPv4 d = None \<and> isV4 then d\<lparr>dnsIPv4 := Some a\<rparr>
                     else if dnsIPv6 d = None \<and> \<not> isV4 then d\<lparr>dnsIPv6 := Some a\<rparr>
                     else d)
           in d'\<lparr>dnsIPs := dnsIPs d' @ [a]\<rparr>))"

text \<open>The loop over the static addresses \<open>ipv4\<close>, \<open>ipv6\<close>.\<close>

fun storeStaticIPs :: "nic_env \<Rightarrow> string list \<Rightarrow> dns_ips \<Rightarrow> dns_ips" where
  "storeStaticIPs env [] d = d"
| "storeStaticIPs env (staticIP # rest) d =
     (if staticIP = [] \<or> staticIP = ''none'' then storeStaticIPs env rest d
      else storeStaticIPs env rest (checkAndStoreIP (ParseIP env staticIP) d))"

text \<open>The loop over the external addresses of the device, one per family: an SNAT rule
  for each that is set and whose family has an address.\<close>

fun externalAddresses ::
  "nic_env \<Rightarrow> OVNInstanceNICSetupOpts \<Rightarrow> string \<Rightarrow> string \<Rightarrow> string list \<Rightarrow> error option" where
  "externalAddresses env opts ipv4 ipv6 [] = None"
| "externalAddresses env opts ipv4 ipv6 (keyPrefix # rest) =
     (let v = cfg (DeviceConfig opts) (keyPrefix @ ''.address.external'') in
      if v = [] then externalAddresses env opts ipv4 ipv6 rest
      else if keyPrefix = ''ipv4'' \<and> ipv4 = [] then externalAddresses env opts ipv4 ipv6 rest
      else if keyPrefix = ''ipv6'' \<and> ipv6 = [] then externalAddresses env opts ipv4 ipv6 rest
      else
        (case (if keyPrefix = ''ipv4'' then ParseCIDRNet env (ipv4 @ ''/32'')
               else ParseCIDRNet env (ipv6 @ ''/128'')) of
           Inl e \<Rightarrow> Some (wrap ''Invalid internal address: '' e)
         | Inr intNet \<Rightarrow>
             (case ParseIP env v of
                None \<Rightarrow> Some (Error (''Invalid external address '' @ v))
              | Some extIP \<Rightarrow>
                  (case CreateLogicalRouterNAT env intNet extIP of
                     Some e \<Rightarrow> Some (wrap (''Failed to add SNAT '' @ v @ '': '') e)
                   | None \<Rightarrow> externalAddresses env opts ipv4 ipv6 rest))))"

text \<open>
  The wait for dynamic addresses: up to 40 questions; the first non-empty answer ends it,
  an empty answer or the not-found error asks again, another error is returned. When all
  questions are used up the addresses are the empty list.
\<close>

fun pollDynamicIPs :: "(nat \<Rightarrow> poll) \<Rightarrow> nat \<Rightarrow> nat \<Rightarrow> error + IP list" where
  "pollDynamicIPs ask 0 i = Inr []"
| "pollDynamicIPs ask (Suc left) i =
     (case ask i of
        PollIPs dynamicIPs \<Rightarrow>
          if dynamicIPs \<noteq> [] then Inr dynamicIPs else pollDynamicIPs ask left (Suc i)
      | PollNotFound \<Rightarrow> pollDynamicIPs ask left (Suc i)
      | PollError e \<Rightarrow> Inl e)"

text \<open>The block that fetches dynamic addresses when a family has no address yet.\<close>

definition dynamicAddresses ::
  "nic_env \<Rightarrow> string \<Rightarrow> string \<Rightarrow> string \<Rightarrow> dns_ips \<Rightarrow> error + dns_ips" where
  "dynamicAddresses env instancePortName ipv4 ipv6 d =
     (if (ipv4 \<noteq> ''none'' \<and> dnsIPv4 d = None) \<or> (ipv6 \<noteq> ''none'' \<and> dnsIPv6 d = None) then
        (case pollDynamicIPs (GetLogicalSwitchPortDynamicIPs env instancePortName) 40 0 of
           Inl e \<Rightarrow> Inl e
         | Inr dynamicIPs \<Rightarrow>
             (let d' = fold (\<lambda>dynamicIP. checkAndStoreIP (Some dynamicIP)) dynamicIPs d in
              if (dnsIPv4 d' = None \<and> DHCPv4Subnet env \<noteq> None) \<or>
                 (dnsIPv6 d' = None \<and> DHCPv6Subnet env \<noteq> None)
              then Inl (Error ''Insufficient dynamic addresses allocated'')
              else Inr d'))
      else Inr d)"

text \<open>
  The block that ensures the reservation of a static IPv4 address: the list to write
  (when one is written) and the error of the write (when it fails).
\<close>

definition ensureReservation ::
  "nic_env \<Rightarrow> OVNInstanceNICSetupOpts \<Rightarrow> Range list \<Rightarrow> dns_ips \<Rightarrow> Range list option \<times> error option" where
  "ensureReservation env opts dhcpReservations d =
     (case dnsIPv4 d of
        None \<Rightarrow> (None, None)
      | Some ip \<Rightarrow>
          if cfg (DeviceConfig opts) ''ipv4.address'' \<noteq> [] then
            (if \<not> hasDHCPv4Reservation dhcpReservations ip then
               (let dhcpReservations' = dhcpReservations @ [\<lparr>Start = ip, End = None\<rparr>] in
                case UpdateLogicalSwitchDHCPv4Revervations env dhcpReservations' of
                  Some e \<Rightarrow>
                    (Some dhcpReservations',
                     Some (wrap (''Failed adding DHCPv4 reservation for '' @ IPString env ip
                                 @ '': '') e))
                | None \<Rightarrow> (Some dhcpReservations', None))
             else (None, None))
          else (None, None))"

definition InstanceDevicePortStart_afterRequest ::
  "nic_env \<Rightarrow> OVNInstanceNICSetupOpts \<Rightarrow> port_request \<Rightarrow> Range list option \<times> error option" where
  "InstanceDevicePortStart_afterRequest env opts req =
     (let ipv4 = IPV4 (portOpts req); ipv6 = IPV6 (portOpts req) in
      case CreateLogicalSwitchPort env (portName req) (portOpts req) of
        Some e \<Rightarrow> (None, Some e)
      | None \<Rightarrow>
      (let d = storeStaticIPs env [ipv4, ipv6] \<lparr>dnsIPv4 = None, dnsIPv6 = None, dnsIPs = []\<rparr> in
       case externalAddresses env opts ipv4 ipv6 [''ipv4'', ''ipv6''] of
         Some e \<Rightarrow> (None, Some e)
       | None \<Rightarrow>
       (case dynamicAddresses env (portName req) ipv4 ipv6 d of
          Inl e \<Rightarrow> (None, Some e)
        | Inr d' \<Rightarrow>
        (case UpdateLogicalSwitchPortDNS env (portName req)
                (DNSName opts @ ''.'' @ getDomainName env) (dnsIPs d') of
           Inl e \<Rightarrow> (None, Some (wrap ''Failed setting DNS: '' e))
         | Inr dnsUUID \<Rightarrow> ensureReservation env opts (readReservations req) d'))))"

text \<open>
  \<open>InstanceDevicePortStart\<close> through its reservation step. What follows in the source
  (publishing addresses, routes, port groups) calls neither \<open>CreateLogicalSwitchPort\<close>
  nor \<open>UpdateLogicalSwitchDHCPv4Revervations\<close>, and is not followed here; nor are the
  revert handlers run on failure, which delete what was created and leave the
  reservations alone.
\<close>

definition InstanceDevicePortStart :: "nic_env \<Rightarrow> OVNInstanceNICSetupOpts \<Rightarrow> nic_trace" where
  "InstanceDevicePortStart env opts =
     (case InstanceDevicePortStart_request env opts of
        Inl e \<Rightarrow> \<lparr>requested = None, written = None, failure = Some e\<rparr>
      | Inr req \<Rightarrow>
          (case InstanceDevicePortStart_afterRequest env opts req of
             (w, f) \<Rightarrow>
               \<lparr>requested = Some (portName req, portOpts req), written = w, failure = f\<rparr>))"

text \<open>
  No two single-address entries of a reservation list are \<open>Equal\<close> in their start: the
  invariant of the reservation set.
\<close>

fun noDuplicateSingle :: "Range list \<Rightarrow> bool" where
  "noDuplicateSingle [] = True"
| "noDuplicateSingle (r # rs) =
     ((End r = None \<longrightarrow> \<not> list_ex (\<lambda>x. End x = None \<and> Equal (Start x) (Start r)) rs) \<and>
      noDuplicateSingle rs)"

text \<open>
  A concrete environment for running the NIC functions, given the reservation list and
  the addresses of the existing switch ports: the network 10.0.0.0/24 with DHCPv4 and no
  DHCPv6, a control plane on which every call succeeds and which answers the third
  question for dynamic addresses with 10.0.0.9. The library functions are tabulated on
  the addresses used below; \<open>IPInSlice\<close> is membership up to \<open>Equal\<close>.
\<close>

definition v4mapped :: "byte list \<Rightarrow> IP" where
  "v4mapped v = v4InV6Prefix @ v"

definition example_ParseIP :: "string \<Rightarrow> IP option" where
  "example_ParseIP s =
     (if s = ''10.0.0.5'' then Some (v4mapped [10, 0, 0, 5])
      else if s = ''10.0.0.6'' then Some (v4mapped [10, 0, 0, 6])
      else if s = ''10.0.0.9'' then Some (v4mapped [10, 0, 0, 9])
      else None)"

definition example_IPString :: "IP \<Rightarrow> string" where
  "example_IPString ip =
     (if To4 ip = Some [10, 0, 0, 5] then ''10.0.0.5''
      else if To4 ip = Some [10, 0, 0, 6] then ''10.0.0.6''
      else if To4 ip = Some [10, 0, 0, 9] then ''10.0.0.9''
      else ''?'')"

definition example_SubnetContainsIP :: "IPNet \<Rightarrow> IP \<Rightarrow> bool" where
  "example_SubnetContainsIP subnet ip =
     (case To4 ip of
        None \<Rightarrow> False
      | Some v \<Rightarrow> length (Mask subnet) = 4 \<and> map2 (AND) v (Mask subnet) = NetIP subnet)"

definition example_nic_env :: "Range list \<Rightarrow> IP list list \<Rightarrow> nic_env" where
  "example_nic_env reservations portIPs =
     \<lparr>ParseMAC = (\<lambda>_. Inr [0x10, 0x66, 0x6a, 1, 2, 3]),
      ParseIP = example_ParseIP,
      IPString = example_IPString,
      ParseCIDRNet = (\<lambda>_. Inl (Error ''invalid CIDR address'')),
      SubnetContainsIP = example_SubnetContainsIP,
      IPInSlice = (\<lambda>key list. list_ex (\<lambda>entry. Equal entry key) list),
      IsTrue = (\<lambda>s. s = ''true''),
      eui64ParseMAC = (\<lambda>_ _. Inl (Error ''no EUI64'')),
      ParseUint16 = (\<lambda>_. Inl (Error ''invalid syntax'')),
      instanceDevicePortRoutesParse = (\<lambda>_. None),
      getInstanceDevicePortName = (\<lambda>u d. ''incus-net1-instance-'' @ u @ ''-'' @ d),
      getDomainName = ''incus'',
      ServerName = ''node1'',
      DHCPv4Subnet = Some \<lparr>NetIP = [10, 0, 0, 0], Mask = [0xff, 0xff, 0xff, 0]\<rparr>,
      DHCPv6Subnet = None,
      getDhcpOptionUUIDs = Inr (''dhcp4'', []),
      GetLogicalSwitchDHCPv4Revervations = Inr reservations,
      GetLogicalSwitchIPs = Inr portIPs,
      CreateLogicalSwitchPort = (\<lambda>_ _. None),
      CreateLogicalRouterNAT = (\<lambda>_ _. None),
      GetLogicalSwitchPortDynamicIPs = (\<lambda>_ i. if i < 2 then PollIPs [] else PollIPs [[10, 0, 0, 9]]),
      UpdateLogicalSwitchPortDNS = (\<lambda>_ _ _. Inr ''dns1''),
      UpdateLogicalSwitchDHCPv4Revervations = (\<lambda>_. None)\<rparr>"

definition example_opts :: "config \<Rightarrow> IP list \<Rightarrow> OVNInstanceNICSetupOpts" where
  "example_opts deviceConfig lastStateIPs =
     \<lparr>InstanceUUID = ''u1'', DeviceName = ''eth0'', DeviceConfig = deviceConfig,
      UplinkConfig = Map.empty, DNSName = ''c1'', LastStateIPs = lastStateIPs\<rparr>"

section \<open>BGP export of load-balancer addresses\<close>

text \<open>
  Modelled from the spec: the BGP collaborator is not in the sources at hand. The
  specification gives its interface, \<open>AddPrefix(prefix, nextHop, owner)\<close> and
  \<open>RemovePrefixByOwner(owner)\<close>: here the exported prefixes are a list of entries,
  \<open>AddPrefix\<close> appends one and \<open>RemovePrefixByOwner\<close> drops every entry of the owner.
  Either call may fail; a failing call changes nothing.
\<close>

record bgp_prefix =
  prefix :: IPNet
  nextHop :: IP
  owner :: string

definition RemovePrefixByOwner :: "error option \<Rightarrow> string \<Rightarrow> bgp_prefix list \<Rightarrow> error + bgp_prefix list" where
  "RemovePrefixByOwner fails own table =
     (case fails of
        Some e \<Rightarrow> Inl e
      | None \<Rightarrow> Inr (filter (\<lambda>p. owner p \<noteq> own) table))"

definition AddPrefix ::
  "error option \<Rightarrow> IPNet \<Rightarrow> IP \<Rightarrow> string \<Rightarrow> bgp_prefix list \<Rightarrow> error + bgp_prefix list" where
  "AddPrefix fails subnet hop own table =
     (case fails of
        Some e \<Rightarrow> Inl e
      | None \<Rightarrow> Inr (table @ [\<lparr>prefix = subnet, nextHop = hop, owner = own\<rparr>]))"

text \<open>
  What \<open>loadBalancerBGPSetupPrefixes\<close> reads and calls: the network's id (printed in
  decimal) and configuration, the listen addresses of the network's load-balancer
  records and of its forward records in the cluster database, whether the database
  transaction fails, the next hop for a
  family, the library's \<open>net.ParseIP\<close>, \<open>IP.String\<close> (of a possibly nil address),
  \<open>net.ParseCIDR\<close> (its subnet), \<open>IPNet.Contains\<close> and \<open>util.IsTrue\<close>, the control
  plane's \<open>GetLoadBalancer\<close> (by name) and \<open>CheckLoadBalancerOnline\<close>, and whether the
  BGP calls fail.
\<close>

record bgp_env =
  net_id :: string
  net_config :: config
  transactionFails :: "error option"
  dbLoadBalancers :: "string list"
  dbForwards :: "string list"
  bgpNextHopAddress :: "nat \<Rightarrow> IP"
  bgp_ParseIP :: "string \<Rightarrow> IP option"
  bgp_IPString :: "IP option \<Rightarrow> string"
  bgp_ParseCIDR :: "string \<Rightarrow> error + IPNet"
  Contains :: "IPNet \<Rightarrow> IP option \<Rightarrow> bool"
  bgp_IsTrue :: "string \<Rightarrow> bool"
  GetLoadBalancer :: "string \<Rightarrow> error + string"
  CheckLoadBalancerOnline :: "string \<Rightarrow> error + bool"
  removeFails :: "error option"
  addFails :: "IPNet \<Rightarrow> error option"

text \<open>The family number in decimal, for the keys \<open>ipv4.nat\<close>, \<open>ipv6.address\<close> and the
  like, and the size of a host route.\<close>

text \<open>The transaction that loads the network's load balancers and collects their listen
  addresses.\<close>

definition GetNetworkLoadBalancers :: "bgp_env \<Rightarrow> error + string list" where
  "GetNetworkLoadBalancers env =
     (case transactionFails env of
        Some e \<Rightarrow> Inl e
      | None \<Rightarrow> Inr (dbLoadBalancers env))"

definition versionText :: "nat \<Rightarrow> string" where
  "versionText ipVersion = (if ipVersion = 4 then ''4'' else ''6'')"

definition routeSubnetSizeText :: "nat \<Rightarrow> string" where
  "routeSubnetSizeText ipVersion = (if ipVersion = 4 then ''32'' else ''128'')"

definition bgpOwner :: "bgp_env \<Rightarrow> string" where
  "bgpOwner env = ''network_'' @ net_id env @ ''_load_balancer''"

text \<open>The health loop over the protocols: online as soon as one protocol's load
  balancer is found and reported online; a failing call goes on to the next protocol.\<close>

fun lbOnlineAmong :: "bgp_env \<Rightarrow> IP option \<Rightarrow> string list \<Rightarrow> bool" where
  "lbOnlineAmong env listenAddr [] = False"
| "lbOnlineAmong env listenAddr (proto # protocols) =
     (case GetLoadBalancer env
             (''incus-net'' @ net_id env @ ''-lb-'' @ bgp_IPString env listenAddr @ ''-'' @ proto) of
        Inl e \<Rightarrow> lbOnlineAmong env listenAddr protocols
      | Inr lb \<Rightarrow>
          (case CheckLoadBalancerOnline env lb of
             Inl e \<Rightarrow> lbOnlineAmong env listenAddr protocols
           | Inr lbOnline \<Rightarrow>
               if lbOnline then True else lbOnlineAmong env listenAddr protocols))"

declare lbOnlineAmong.simps [simp del]

text \<open>Whether a listen address of a family is skipped as internal: NAT is enabled for
  the family and the address is inside the network's subnet of the family.\<close>

definition insideNAT :: "bgp_env \<Rightarrow> nat \<Rightarrow> string \<Rightarrow> bool" where
  "insideNAT env ipVersion listenAddress =
     (bgp_IsTrue env (cfg (net_config env) (''ipv'' @ versionText ipVersion @ ''.nat'')) \<and>
      (case bgp_ParseCIDR env (cfg (net_config env) (''ipv'' @ versionText ipVersion @ ''.address'')) of
         Inl e \<Rightarrow> False
       | Inr netSubnet \<Rightarrow> Contains env netSubnet (bgp_ParseIP env listenAddress)))"

text \<open>The inner loop: the listen addresses of one family, in order.\<close>

fun exportAddresses ::
  "bgp_env \<Rightarrow> nat \<Rightarrow> string list \<Rightarrow> bgp_prefix list \<Rightarrow> error option \<times> bgp_prefix list" where
  "exportAddresses env ipVersion [] table = (None, table)"
| "exportAddresses env ipVersion (listenAddress # rest) table =
     (let listenAddr = bgp_ParseIP env listenAddress in
      if insideNAT env ipVersion listenAddress then exportAddresses env ipVersion rest table
      else if \<not> lbOnlineAmong env listenAddr [''tcp'', ''udp'']
        then exportAddresses env ipVersion rest table
      else
        (case bgp_ParseCIDR env
                (bgp_IPString env listenAddr @ ''/'' @ routeSubnetSizeText ipVersion) of
           Inl e \<Rightarrow> (Some e, table)
         | Inr ipRouteSubnet \<Rightarrow>
             (case AddPrefix (addFails env ipRouteSubnet) ipRouteSubnet
                     (bgpNextHopAddress env ipVersion) (bgpOwner env) table of
                Inl e \<Rightarrow> (Some e, table)
              | Inr table' \<Rightarrow> exportAddresses env ipVersion rest table')))"

text \<open>The outer loop, over the families 4 and 6.\<close>

fun exportFamilies ::
  "bgp_env \<Rightarrow> (nat \<Rightarrow> string list) \<Rightarrow> nat list \<Rightarrow> bgp_prefix list
     \<Rightarrow> error option \<times> bgp_prefix list" where
  "exportFamilies env byFamily [] table = (None, table)"
| "exportFamilies env byFamily (ipVersion # rest) table =
     (case exportAddresses env ipVersion (byFamily ipVersion) table of
        (Some e, table') \<Rightarrow> (Some e, table')
      | (None, table') \<Rightarrow> exportFamilies env byFamily rest table')"

text \<open>A listen address with a colon is IPv6, any other IPv4.\<close>

definition listenAddressesByFamily :: "string list \<Rightarrow> nat \<Rightarrow> string list" where
  "listenAddressesByFamily listenAddresses ipVersion =
     (if ipVersion = 6 then filter (\<lambda>a. CHR '':'' \<in> set a) listenAddresses
      else if ipVersion = 4 then filter (\<lambda>a. CHR '':'' \<notin> set a) listenAddresses
      else [])"

definition loadBalancerBGPSetupPrefixes ::
  "bgp_env \<Rightarrow> bgp_prefix list \<Rightarrow> error option \<times> bgp_prefix list" where
  "loadBalancerBGPSetupPrefixes env table =
     (case GetNetworkLoadBalancers env of
        Inl e \<Rightarrow> (Some (wrap ''Failed loading network forwards: '' e), table)
      | Inr listenAddresses \<Rightarrow>
          (case RemovePrefixByOwner (removeFails env) (bgpOwner env) table of
             Inl e \<Rightarrow> (Some e, table)
           | Inr table' \<Rightarrow>
               exportFamilies env (listenAddressesByFamily listenAddresses) [4, 6] table'))"

text \<open>
  What the code exports, as a list: for each family in turn, the listen addresses of the
  family that are not inside a NAT-enabled subnet and are online, each as a host route.
\<close>

definition exportable :: "bgp_env \<Rightarrow> nat \<Rightarrow> string \<Rightarrow> bool" where
  "exportable env ipVersion listenAddress =
     (\<not> insideNAT env ipVersion listenAddress \<and>
      lbOnlineAmong env (bgp_ParseIP env listenAddress) [''tcp'', ''udp''])"

definition hostRouteText :: "bgp_env \<Rightarrow> nat \<Rightarrow> string \<Rightarrow> string" where
  "hostRouteText env ipVersion listenAddress =
     bgp_IPString env (bgp_ParseIP env listenAddress) @ ''/'' @ routeSubnetSizeText ipVersion"

definition hostRouteOf :: "bgp_env \<Rightarrow> nat \<Rightarrow> string \<Rightarrow> IPNet" where
  "hostRouteOf env ipVersion listenAddress =
     (case bgp_ParseCIDR env (hostRouteText env ipVersion listenAddress) of
        Inr ipRouteSubnet \<Rightarrow> ipRouteSubnet
      | Inl e \<Rightarrow> \<lparr>NetIP = [], Mask = []\<rparr>)"

definition exportedPrefixes :: "bgp_env \<Rightarrow> nat \<Rightarrow> string list \<Rightarrow> bgp_prefix list" where
  "exportedPrefixes env ipVersion listenAddresses =
     map (\<lambda>a. \<lparr>prefix = hostRouteOf env ipVersion a, nextHop = bgpNextHopAddress env ipVersion,
                owner = bgpOwner env\<rparr>)
       (filter (exportable env ipVersion) (listenAddressesByFamily listenAddresses ipVersion))"

text \<open>The calls behave: the transaction and the BGP calls do not fail, and the host
  route of every exportable address parses.\<close>

definition callsSucceed :: "bgp_env \<Rightarrow> bool" where
  "callsSucceed env =
     (transactionFails env = None \<and> removeFails env = None \<and>
      list_all
        (\<lambda>ipVersion.
           list_all
             (\<lambda>a. exportable env ipVersion a \<longrightarrow>
                    \<not> isl (bgp_ParseCIDR env (hostRouteText env ipVersion a)) \<and>
                    addFails env (hostRouteOf env ipVersion a) = None)
             (listenAddressesByFamily (dbLoadBalancers env) ipVersion))
        [4, 6])"

text \<open>
  The export in the specification's words: the host routes of the listen addresses of
  the load balancers and of the forwards.
\<close>

definition spec_exportedPrefixes :: "bgp_env \<Rightarrow> nat \<Rightarrow> bgp_prefix list" where
  "spec_exportedPrefixes env ipVersion =
     exportedPrefixes env ipVersion (dbLoadBalancers env @ dbForwards env)"

text \<open>
  A concrete environment for running the export, given the listen addresses of the
  load-balancer records and of the forward records, and the names of the control plane's
  load balancers that are online: network 7 with the subnet 10.0.0.0/24 and IPv4 NAT
  enabled, library functions tabulated on the addresses used below, no failing call.
\<close>

definition example_bgp_ParseIP :: "string \<Rightarrow> IP option" where
  "example_bgp_ParseIP s =
     (if s = ''192.0.2.10'' then Some (v4mapped [192, 0, 2, 10])
      else if s = ''192.0.2.11'' then Some (v4mapped [192, 0, 2, 11])
      else if s = ''10.0.0.50'' then Some (v4mapped [10, 0, 0, 50])
      else None)"

definition example_bgp_IPString :: "IP option \<Rightarrow> string" where
  "example_bgp_IPString ip =
     (if ip = Some (v4mapped [192, 0, 2, 10]) then ''192.0.2.10''
      else if ip = Some (v4mapped [192, 0, 2, 11]) then ''192.0.2.11''
      else if ip = Some (v4mapped [10, 0, 0, 50]) then ''10.0.0.50''
      else ''<nil>'')"

definition example_bgp_ParseCIDR :: "string \<Rightarrow> error + IPNet" where
  "example_bgp_ParseCIDR s =
     (if s = ''10.0.0.1/24'' then Inr \<lparr>NetIP = [10, 0, 0, 0], Mask = [0xff, 0xff, 0xff, 0]\<rparr>
      else if s = ''192.0.2.10/32''
        then Inr \<lparr>NetIP = [192, 0, 2, 10], Mask = [0xff, 0xff, 0xff, 0xff]\<rparr>
      else if s = ''192.0.2.11/32''
        then Inr \<lparr>NetIP = [192, 0, 2, 11], Mask = [0xff, 0xff, 0xff, 0xff]\<rparr>
      else if s = ''10.0.0.50/32''
        then Inr \<lparr>NetIP = [10, 0, 0, 50], Mask = [0xff, 0xff, 0xff, 0xff]\<rparr>
      else Inl (Error ''invalid CIDR address''))"

definition example_bgp_env :: "string list \<Rightarrow> string list \<Rightarrow> string list \<Rightarrow> bgp_env" where
  "example_bgp_env loadBalancers forwards onlineNames =
     \<lparr>net_id = ''7'',
      net_config = [''ipv4.address'' \<mapsto> ''10.0.0.1/24'', ''ipv4.nat'' \<mapsto> ''true''],
      transactionFails = None,
      dbLoadBalancers = loadBalancers,
      dbForwards = forwards,
      bgpNextHopAddress = (\<lambda>ipVersion. if ipVersion = 4 then [198, 51, 100, 1] else []),
      bgp_ParseIP = example_bgp_ParseIP,
      bgp_IPString = example_bgp_IPString,
      bgp_ParseCIDR = example_bgp_ParseCIDR,
      Contains = (\<lambda>subnet ip. case ip of None \<Rightarrow> False
                               | Some a \<Rightarrow> example_SubnetContainsIP subnet a),
      bgp_IsTrue = (\<lambda>s. s = ''true''),
      GetLoadBalancer = (\<lambda>name. Inr name),
      CheckLoadBalancerOnline = (\<lambda>lb. Inr (lb \<in> set onlineNames)),
      removeFails = None,
      addFails = (\<lambda>_. None)\<rparr>"

section \<open>Router MAC\<close>

text \<open>
  What \<open>getRouterMAC\<close> calls and this file of the driver does not define: the loading of
  the server certificate (its fingerprint, or an error), \<open>GetStableRandomGenerator\<close> (a
  generator for a seed, or an error), \<open>randomHwaddr\<close> (the text of a MAC address drawn
  from a generator), the decimal printing of the network's id, and \<open>net.ParseMAC\<close>.
\<close>

record ('r) mac_env =
  LoadCertFingerprint :: "error + string"
  GetStableRandomGenerator :: "string \<Rightarrow> error + 'r"
  randomHwaddr :: "'r \<Rightarrow> string"
  printDecimal :: "int \<Rightarrow> string"
  mac_ParseMAC :: "string \<Rightarrow> error + byte list"

text \<open>The seed: the fingerprint, a zero and the network's id, separated by dots.\<close>

definition routerMACSeed :: "'r mac_env \<Rightarrow> string \<Rightarrow> int \<Rightarrow> string" where
  "routerMACSeed env fingerprint n_ID = fingerprint @ ''.'' @ ''0'' @ ''.'' @ printDecimal env n_ID"

definition getRouterMAC :: "'r mac_env \<Rightarrow> config \<Rightarrow> int \<Rightarrow> error + byte list" where
  "getRouterMAC env n_config n_ID =
     (case (if cfg n_config ''bridge.hwaddr'' = [] then
              (case LoadCertFingerprint env of
                 Inl e \<Rightarrow> Inl e
               | Inr fingerprint \<Rightarrow>
                   (case GetStableRandomGenerator env (routerMACSeed env fingerprint n_ID) of
                      Inl e \<Rightarrow> Inl (wrap ''Failed generating stable random router MAC: '' e)
                    | Inr r \<Rightarrow> Inr (randomHwaddr env r)))
            else Inr (cfg n_config ''bridge.hwaddr'')) of
        Inl e \<Rightarrow> Inl e
      | Inr hwAddr \<Rightarrow>
          (case mac_ParseMAC env hwAddr of
             Inl e \<Rightarrow> Inl (wrap ''Failed parsing router MAC address: '' e)
           | Inr mac \<Rightarrow> Inr mac))"

section \<open>Properties\<close>

text \<open>
  C7. Once the underlay MTU and encapsulation address are known, \<open>getOptimalBridgeMTU\<close>
  returns one of four values: with IPv6 encapsulation (the address has no 4-byte form)
  1500 when the underlay MTU is at least 1578 and 1422 otherwise; with IPv4
  encapsulation 1500 when the underlay MTU is at least 1558 and 1442 otherwise.
\<close>

theorem getOptimalBridgeMTU_values:
  "getOptimalBridgeMTU (Inr (underlayMTU, encapIP)) =
     Inr (if To4 encapIP = None
          then (if unat underlayMTU \<ge> 1500 + 78 then 1500 else 1422)
          else (if unat underlayMTU \<ge> 1500 + 58 then 1500 else 1442))"
  by (simp add: getOptimalBridgeMTU_def word_le_nat_alt)

subsection \<open>Forward port mapping\<close>

lemma flattenListenPorts_inrange:
  "length (ports (target pm)) \<le> 1 \<or> i + length lps \<le> length (ports (target pm)) \<Longrightarrow>
   flattenListenPorts la pm i lps vips =
     Inr (vips @ map (\<lambda>(j, lp). portVIP la pm lp (code_targetPort pm j lp)) (enumerate i lps))"
proof (induction lps arbitrary: i vips)
  case Nil
  then show ?case by simp
next
  case (Cons lp lps)
  have tp: "targetPortOf pm i lp = Inr (code_targetPort pm i lp)"
    using Cons.prems by (auto simp: targetPortOf_def code_targetPort_def Let_def)
  have "length (ports (target pm)) \<le> 1 \<or> Suc i + length lps \<le> length (ports (target pm))"
    using Cons.prems by auto
  from Cons.IH[OF this] tp show ?case by simp
qed

lemma flattenPortMaps_inrange:
  "list_all portsInRange pms \<Longrightarrow>
   flattenPortMaps la pms vips = Inr (vips @ concat (map (code_portMapVIPs la) pms))"
proof (induction pms arbitrary: vips)
  case Nil
  then show ?case by simp
next
  case (Cons pm pms)
  then have r: "portsInRange pm" and rs: "list_all portsInRange pms" by simp_all
  have "flattenListenPorts la pm 0 (listenPorts pm) vips = Inr (vips @ code_portMapVIPs la pm)"
    using r flattenListenPorts_inrange[of pm 0 "listenPorts pm" la vips]
    by (simp add: portsInRange_def code_portMapVIPs_def)
  with Cons.IH[OF rs] show ?case by simp
qed

text \<open>The rule the code follows, on every port map whose indexing stays in range.\<close>

lemma forwardFlattenVIPs_code_rule:
  assumes "list_all portsInRange portMaps"
  shows "forwardFlattenVIPs listenAddress defaultTargetAddress portMaps =
           Inr (defaultVIPs listenAddress defaultTargetAddress @
                concat (map (code_portMapVIPs listenAddress) portMaps))"
  using flattenPortMaps_inrange[OF assms]
  by (simp add: forwardFlattenVIPs_def defaultVIPs_def)

lemma portCountsMatch_inRange: "portCountsMatch pm \<Longrightarrow> portsInRange pm"
  by (auto simp: portCountsMatch_def portsInRange_def)

lemma code_targetPort_spec:
  assumes "portCountsMatch pm" and "i < length (listenPorts pm)"
  shows "code_targetPort pm i lp = spec_targetPort pm i lp"
  using assms by (auto simp: portCountsMatch_def code_targetPort_def spec_targetPort_def)

lemma code_portMapVIPs_spec:
  assumes "portCountsMatch pm"
  shows "code_portMapVIPs la pm = spec_portMapVIPs la pm"
  unfolding code_portMapVIPs_def spec_portMapVIPs_def
proof (rule map_cong[OF refl])
  fix x assume mem: "x \<in> set (enumerate 0 (listenPorts pm))"
  obtain i lp where x: "x = (i, lp)" by (cases x) auto
  from mem x have "i < length (listenPorts pm)"
    by (simp add: in_set_enumerate_eq)
  from code_targetPort_spec[OF assms this] x
  show "(case x of (i, lp) \<Rightarrow> portVIP la pm lp (code_targetPort pm i lp)) =
        (case x of (i, lp) \<Rightarrow> portVIP la pm lp (spec_targetPort pm i lp))"
    by simp
qed

text \<open>
  C3. For port maps with no target port, one target port, or as many target ports as
  listen ports, \<open>forwardFlattenVIPs\<close> returns the VIP of the default target address (when
  one is given) followed, port map by port map and listen port by listen port, by exactly
  one VIP per listen port, carrying the listen address, the port map's protocol and target
  address, and as target port: the single target port when there is exactly one; the
  target port at the listen port's index when the target port count equals the listen
  port count; the listen port itself otherwise.
\<close>

theorem forwardFlattenVIPs_mapping_rule:
  assumes "list_all portCountsMatch portMaps"
  shows "forwardFlattenVIPs listenAddress defaultTargetAddress portMaps =
           Inr (defaultVIPs listenAddress defaultTargetAddress @
                concat (map (spec_portMapVIPs listenAddress) portMaps))"
proof -
  have r: "list_all portsInRange portMaps"
    using assms by (auto simp: list_all_iff portCountsMatch_inRange)
  have "map (code_portMapVIPs listenAddress) portMaps =
        map (spec_portMapVIPs listenAddress) portMaps"
    using assms by (auto simp: list_all_iff code_portMapVIPs_spec)
  with forwardFlattenVIPs_code_rule[OF r, of listenAddress defaultTargetAddress]
  show ?thesis by simp
qed

theorem forwardFlattenVIPs_mapping_rule_witness:
  "list_all portCountsMatch
     [\<lparr>listenPorts = [80, 443], protocol = ''tcp'',
        target = \<lparr>address = [10, 0, 0, 2], ports = [8080]\<rparr>\<rparr>,
      \<lparr>listenPorts = [53, 54], protocol = ''udp'',
        target = \<lparr>address = [10, 0, 0, 3], ports = [5353, 5354]\<rparr>\<rparr>,
      \<lparr>listenPorts = [22], protocol = ''tcp'',
        target = \<lparr>address = [10, 0, 0, 4], ports = []\<rparr>\<rparr>] \<and>
   forwardFlattenVIPs [192, 0, 2, 1] (Some [10, 0, 0, 9])
     [\<lparr>listenPorts = [80, 443], protocol = ''tcp'',
        target = \<lparr>address = [10, 0, 0, 2], ports = [8080]\<rparr>\<rparr>,
      \<lparr>listenPorts = [53, 54], protocol = ''udp'',
        target = \<lparr>address = [10, 0, 0, 3], ports = [5353, 5354]\<rparr>\<rparr>,
      \<lparr>listenPorts = [22], protocol = ''tcp'',
        target = \<lparr>address = [10, 0, 0, 4], ports = []\<rparr>\<rparr>] =
   Inr [\<lparr>Protocol = [], ListenAddress = [192, 0, 2, 1], ListenPort = 0,
          Targets = [\<lparr>Address = [10, 0, 0, 9], Port = 0\<rparr>]\<rparr>,
        \<lparr>Protocol = ''tcp'', ListenAddress = [192, 0, 2, 1], ListenPort = 80,
          Targets = [\<lparr>Address = [10, 0, 0, 2], Port = 8080\<rparr>]\<rparr>,
        \<lparr>Protocol = ''tcp'', ListenAddress = [192, 0, 2, 1], ListenPort = 443,
          Targets = [\<lparr>Address = [10, 0, 0, 2], Port = 8080\<rparr>]\<rparr>,
        \<lparr>Protocol = ''udp'', ListenAddress = [192, 0, 2, 1], ListenPort = 53,
          Targets = [\<lparr>Address = [10, 0, 0, 3], Port = 5353\<rparr>]\<rparr>,
        \<lparr>Protocol = ''udp'', ListenAddress = [192, 0, 2, 1], ListenPort = 54,
          Targets = [\<lparr>Address = [10, 0, 0, 3], Port = 5354\<rparr>]\<rparr>,
        \<lparr>Protocol = ''tcp'', ListenAddress = [192, 0, 2, 1], ListenPort = 22,
          Targets = [\<lparr>Address = [10, 0, 0, 4], Port = 22\<rparr>]\<rparr>]"
proof -
  let ?pms = "[\<lparr>listenPorts = [80, 443], protocol = ''tcp'',
        target = \<lparr>address = [10, 0, 0, 2], ports = [8080]\<rparr>\<rparr>,
      \<lparr>listenPorts = [53, 54], protocol = ''udp'',
        target = \<lparr>address = [10, 0, 0, 3], ports = [5353, 5354]\<rparr>\<rparr>,
      \<lparr>listenPorts = [22::64 word], protocol = ''tcp'',
        target = \<lparr>address = [10, 0, 0, 4::byte], ports = []\<rparr>\<rparr>]"
  have h: "list_all portCountsMatch ?pms"
    by (simp add: portCountsMatch_def)
  show ?thesis
    using h forwardFlattenVIPs_mapping_rule[OF h, of "[192, 0, 2, 1]" "Some [10, 0, 0, 9]"]
    by (simp add: defaultVIPs_def spec_portMapVIPs_def spec_targetPort_def portVIP_def
        enumerate_eq_zip upt_rec)
qed

text \<open>
  Outside these counts, which no call site passes, the code indexes the target ports
  whenever there is more than one: with more target ports than listen ports it maps by
  index, and with fewer (but more than one) the indexing leaves the slice and the call
  panics.
\<close>

lemma forwardFlattenVIPs_more_targets:
  "forwardFlattenVIPs [192, 0, 2, 1] None
     [\<lparr>listenPorts = [80, 81], protocol = ''tcp'',
        target = \<lparr>address = [10, 0, 0, 2], ports = [8080, 8081, 8082]\<rparr>\<rparr>] =
   Inr [\<lparr>Protocol = ''tcp'', ListenAddress = [192, 0, 2, 1], ListenPort = 80,
          Targets = [\<lparr>Address = [10, 0, 0, 2], Port = 8080\<rparr>]\<rparr>,
        \<lparr>Protocol = ''tcp'', ListenAddress = [192, 0, 2, 1], ListenPort = 81,
          Targets = [\<lparr>Address = [10, 0, 0, 2], Port = 8081\<rparr>]\<rparr>]"
  by (simp add: forwardFlattenVIPs_def targetPortOf_def portVIP_def)

lemma forwardFlattenVIPs_short_targets:
  "forwardFlattenVIPs [192, 0, 2, 1] None
     [\<lparr>listenPorts = [80, 81, 82], protocol = ''tcp'',
        target = \<lparr>address = [10, 0, 0, 2], ports = [8080, 8081]\<rparr>\<rparr>] =
   Inl (IndexOutOfRange 2 2)"
  by (simp add: forwardFlattenVIPs_def targetPortOf_def)

subsection \<open>Isolated networks\<close>

text \<open>
  C10. On a network whose \<open>network\<close> key is the string \<open>none\<close>, \<open>ForwardCreate\<close> and
  \<open>LoadBalancerCreate\<close> return their error at once: whatever the rest of either function
  would do to the database and the control plane, the state is the one they were called
  in, so no forward or load-balancer record is added.
\<close>

theorem isolated_network_create_refused:
  assumes "cfg n_config ''network'' = ''none''"
  shows "ForwardCreate n_config fbody forward fclientType st =
           (Some (Error ''Isolated OVN network cannot use network forwards''), st) \<and>
         LoadBalancerCreate n_config lbody loadBalancer lclientType st' =
           (Some (Error ''Isolated OVN network cannot use network load balancers''), st')"
  using assms by (simp add: ForwardCreate_def LoadBalancerCreate_def)

theorem isolated_network_create_refused_witness:
  "cfg [''network'' \<mapsto> ''none''] ''network'' = ''none'' \<and>
   ForwardCreate [''network'' \<mapsto> ''none'']
       (\<lambda>(listen :: string) (ct :: bool) (db :: string list). (None, listen # db))
       ''192.0.2.1'' True [] =
     (Some (Error ''Isolated OVN network cannot use network forwards''), []) \<and>
   LoadBalancerCreate [''network'' \<mapsto> ''none'']
       (\<lambda>(listen :: string) (ct :: bool) (db :: string list). (None, listen # db))
       ''192.0.2.2'' True [] =
     (Some (Error ''Isolated OVN network cannot use network load balancers''), [])"
proof -
  have h: "cfg [''network'' \<mapsto> ''none''] ''network'' = ''none''"
    by (simp add: cfg_def)
  show ?thesis
    using h isolated_network_create_refused[OF h,
        of "\<lambda>listen ct db. (None, listen # db)" "''192.0.2.1''" True "[]"
           "\<lambda>listen ct db. (None, listen # db)" "''192.0.2.2''" True "[]"]
    by simp
qed

text \<open>On any other network the guard lets the rest of the function run.\<close>

lemma ForwardCreate_not_isolated:
  "cfg n_config ''network'' \<noteq> ''none'' \<Longrightarrow>
   ForwardCreate n_config body forward clientType st = body forward clientType st"
  by (simp add: ForwardCreate_def)

subsection \<open>Validation\<close>

lemma Validate_rejects_iff:
  "Validate env c \<noteq> None \<longleftrightarrow>
     validate_rules env c \<noteq> None \<or> validateZoneNames env c \<noteq> None \<or>
     ipv4ReservedCheck env c \<noteq> None \<or> ipv6SubnetCheck env c \<noteq> None \<or>
     validate_rest env c \<noteq> None"
  by (auto simp: Validate_def split: option.splits)

text \<open>
  C5. When \<open>ipv6.address\<close> parses as a CIDR subnet: with a prefix longer than 64,
  \<open>Validate\<close> rejects the configuration, and the error is
  \<open>IPv6 subnet must be at least a /64\<close> whenever the checks before this one pass; with a
  prefix of 64 or less the check raises nothing, and \<open>Validate\<close> decides as the other
  checks alone do.
\<close>

theorem Validate_ipv6_subnet_size:
  assumes "ParseCIDR env (cfg c ''ipv6.address'') = Some (ip, ipv6Net)"
  shows "(fst (Size (Mask ipv6Net)) > 64 \<longrightarrow>
            Validate env c \<noteq> None \<and>
            (validate_rules env c = None \<and> validateZoneNames env c = None \<and>
             ipv4ReservedCheck env c = None \<longrightarrow>
               Validate env c = Some (Err (Error ''IPv6 subnet must be at least a /64'')))) \<and>
         (fst (Size (Mask ipv6Net)) \<le> 64 \<longrightarrow>
            ipv6SubnetCheck env c = None \<and>
            Validate env c = Validate_without_ipv6SubnetCheck env c)"
proof (intro conjI impI)
  assume big: "64 < fst (Size (Mask ipv6Net))"
  then have chk: "ipv6SubnetCheck env c = Some (Err (Error ''IPv6 subnet must be at least a /64''))"
    using assms by (simp add: ipv6SubnetCheck_def)
  then show "Validate env c \<noteq> None"
    by (auto simp: Validate_def split: option.splits)
  assume "validate_rules env c = None \<and> validateZoneNames env c = None \<and>
          ipv4ReservedCheck env c = None"
  with chk show "Validate env c = Some (Err (Error ''IPv6 subnet must be at least a /64''))"
    by (simp add: Validate_def)
next
  assume small: "fst (Size (Mask ipv6Net)) \<le> 64"
  then show chk: "ipv6SubnetCheck env c = None"
    using assms by (simp add: ipv6SubnetCheck_def)
  then show "Validate env c = Validate_without_ipv6SubnetCheck env c"
    by (simp add: Validate_def Validate_without_ipv6SubnetCheck_def split: option.splits)
qed

text \<open>
  C6. When \<open>ipv4.address\<close> is set and parses as a CIDR: if its address is the one that
  \<open>GetIP\<close> gives at host number -2 of its own subnet, \<open>Validate\<close> rejects the
  configuration, with the reserved-address error whenever the checks before this one
  pass; if the address differs, the check raises nothing, and \<open>Validate\<close> decides as the
  other checks alone do.
\<close>

theorem Validate_ipv4_reserved_address:
  assumes "cfg c ''ipv4.address'' \<noteq> []"
    and "ParseCIDR env (cfg c ''ipv4.address'') = Some (ipv4Addr, ipv4Net)"
    and "netipOfIP (GetIP env ipv4Net (-2)) = Inr ovnRouter"
    and "netipOfIP ipv4Addr = Inr addr"
  shows "(addr = ovnRouter \<longrightarrow>
            Validate env c \<noteq> None \<and>
            (validate_rules env c = None \<and> validateZoneNames env c = None \<longrightarrow>
               Validate env c = Some (ErrReservedForHealthChecks ovnRouter))) \<and>
         (addr \<noteq> ovnRouter \<longrightarrow>
            ipv4ReservedCheck env c = None \<and>
            Validate env c = Validate_without_ipv4ReservedCheck env c)"
proof (intro conjI impI)
  assume eq: "addr = ovnRouter"
  then have chk: "ipv4ReservedCheck env c = Some (ErrReservedForHealthChecks ovnRouter)"
    using assms by (simp add: ipv4ReservedCheck_def)
  then show "Validate env c \<noteq> None"
    by (auto simp: Validate_def split: option.splits)
  assume "validate_rules env c = None \<and> validateZoneNames env c = None"
  with chk show "Validate env c = Some (ErrReservedForHealthChecks ovnRouter)"
    by (simp add: Validate_def)
next
  assume "addr \<noteq> ovnRouter"
  then show chk: "ipv4ReservedCheck env c = None"
    using assms by (auto simp: ipv4ReservedCheck_def)
  then show "Validate env c = Validate_without_ipv4ReservedCheck env c"
    by (simp add: Validate_def Validate_without_ipv4ReservedCheck_def split: option.splits)
qed

theorem Validate_ipv6_subnet_size_witness:
  "Validate example_env [''ipv6.address'' \<mapsto> ''fd42::1/80''] =
     Some (Err (Error ''IPv6 subnet must be at least a /64'')) \<and>
   Validate example_env [''ipv6.address'' \<mapsto> ''fd42::1/64''] = None \<and>
   Validate example_env [''ipv6.address'' \<mapsto> ''fd42::1/48''] = None"
proof -
  let ?ip = "[0xfd, 0x42, 0, 0, 0, 0, 0, 0, 0, 0, 0, 0, 0, 0, 0, 1] :: IP"
  let ?base = "[0xfd, 0x42, 0, 0, 0, 0, 0, 0, 0, 0, 0, 0, 0, 0, 0, 0] :: IP"
  let ?n80 = "\<lparr>NetIP = ?base,
               Mask = [0xff, 0xff, 0xff, 0xff, 0xff, 0xff, 0xff, 0xff, 0xff, 0xff,
                       0, 0, 0, 0, 0, 0]\<rparr>"
  let ?n64 = "\<lparr>NetIP = ?base,
               Mask = [0xff, 0xff, 0xff, 0xff, 0xff, 0xff, 0xff, 0xff,
                       0, 0, 0, 0, 0, 0, 0, 0]\<rparr>"
  let ?n48 = "\<lparr>NetIP = ?base,
               Mask = [0xff, 0xff, 0xff, 0xff, 0xff, 0xff, 0, 0,
                       0, 0, 0, 0, 0, 0, 0, 0]\<rparr>"
  let ?c80 = "[''ipv6.address'' \<mapsto> ''fd42::1/80'']"
  let ?c64 = "[''ipv6.address'' \<mapsto> ''fd42::1/64'']"
  let ?c48 = "[''ipv6.address'' \<mapsto> ''fd42::1/48'']"
  have s80: "fst (Size (Mask ?n80)) = 80" by code_simp
  have s64: "fst (Size (Mask ?n64)) = 64" by code_simp
  have s48: "fst (Size (Mask ?n48)) = 48" by code_simp
  have p80: "ParseCIDR example_env (cfg ?c80 ''ipv6.address'') = Some (?ip, ?n80)"
    by (simp add: example_env_def example_ParseCIDR_def cfg_def)
  have p64: "ParseCIDR example_env (cfg ?c64 ''ipv6.address'') = Some (?ip, ?n64)"
    by (simp add: example_env_def example_ParseCIDR_def cfg_def)
  have p48: "ParseCIDR example_env (cfg ?c48 ''ipv6.address'') = Some (?ip, ?n48)"
    by (simp add: example_env_def example_ParseCIDR_def cfg_def)
  have before: "validate_rules example_env c = None" "validateZoneNames example_env c = None"
    "validate_rest example_env c = None" for c
    by (simp_all add: example_env_def)
  have v4: "ipv4ReservedCheck example_env ?c80 = None"
    "ipv4ReservedCheck example_env ?c64 = None" "ipv4ReservedCheck example_env ?c48 = None"
    by (simp_all add: ipv4ReservedCheck_def cfg_def)
  have r80: "Validate example_env ?c80 = Some (Err (Error ''IPv6 subnet must be at least a /64''))"
    using Validate_ipv6_subnet_size[OF p80] s80 before v4 by simp
  have r64: "Validate example_env ?c64 = Validate_without_ipv6SubnetCheck example_env ?c64"
    using Validate_ipv6_subnet_size[OF p64] s64 by simp
  have r48: "Validate example_env ?c48 = Validate_without_ipv6SubnetCheck example_env ?c48"
    using Validate_ipv6_subnet_size[OF p48] s48 by simp
  show ?thesis
    using r80 r64 r48 before v4 by (simp add: Validate_without_ipv6SubnetCheck_def)
qed

theorem Validate_ipv4_reserved_address_witness:
  "Validate example_env [''ipv4.address'' \<mapsto> ''10.0.0.254/24''] =
     Some (ErrReservedForHealthChecks [10, 0, 0, 254]) \<and>
   Validate example_env [''ipv4.address'' \<mapsto> ''10.0.0.1/24''] = None"
proof -
  let ?net = "\<lparr>NetIP = [10, 0, 0, 0], Mask = [0xff, 0xff, 0xff, 0]\<rparr>"
  let ?a254 = "[0, 0, 0, 0, 0, 0, 0, 0, 0, 0, 0xff, 0xff, 10, 0, 0, 254] :: IP"
  let ?a1 = "[0, 0, 0, 0, 0, 0, 0, 0, 0, 0, 0xff, 0xff, 10, 0, 0, 1] :: IP"
  let ?c254 = "[''ipv4.address'' \<mapsto> ''10.0.0.254/24'']"
  let ?c1 = "[''ipv4.address'' \<mapsto> ''10.0.0.1/24'']"
  have set254: "cfg ?c254 ''ipv4.address'' \<noteq> []" and set1: "cfg ?c1 ''ipv4.address'' \<noteq> []"
    by (simp_all add: cfg_def)
  have p254: "ParseCIDR example_env (cfg ?c254 ''ipv4.address'') = Some (?a254, ?net)"
    by (simp add: example_env_def example_ParseCIDR_def cfg_def)
  have p1: "ParseCIDR example_env (cfg ?c1 ''ipv4.address'') = Some (?a1, ?net)"
    by (simp add: example_env_def example_ParseCIDR_def cfg_def)
  have sz: "Size [0xff, 0xff, 0xff, 0] = (24, 32)" by code_simp
  have g: "spec_GetIP ?net (-2) = [10, 0, 0, 254]"
    by (simp add: spec_GetIP_def sz To4_def bytesToNat_def natToBytes4_def)
  have router: "netipOfIP (GetIP example_env ?net (-2)) = Inr [10, 0, 0, 254]"
    by (simp add: example_env_def g netipOfIP_def To4_def)
  have n254: "netipOfIP ?a254 = Inr [10, 0, 0, 254]"
    by (simp add: netipOfIP_def To4_def isZeros_def)
  have n1: "netipOfIP ?a1 = Inr [10, 0, 0, 1]"
    by (simp add: netipOfIP_def To4_def isZeros_def)
  have before: "validate_rules example_env c = None" "validateZoneNames example_env c = None"
    "validate_rest example_env c = None" for c
    by (simp_all add: example_env_def)
  have v6: "ipv6SubnetCheck example_env ?c1 = None"
    by (simp add: ipv6SubnetCheck_def cfg_def example_env_def example_ParseCIDR_def)
  have r254: "Validate example_env ?c254 = Some (ErrReservedForHealthChecks [10, 0, 0, 254])"
    using Validate_ipv4_reserved_address[OF set254 p254 router n254] before by simp
  have r1: "Validate example_env ?c1 = Validate_without_ipv4ReservedCheck example_env ?c1"
    using Validate_ipv4_reserved_address[OF set1 p1 router n1] by simp
  show ?thesis
    using r254 r1 before v6 by (simp add: Validate_without_ipv4ReservedCheck_def)
qed

subsection \<open>Uplink address allocation\<close>

lemma Bytes_5: "Bytes 5 = [5]"
  by (simp add: Bytes.simps[of 5] Bytes.simps[of 0])

lemma Bytes_v6_example:
  "Bytes 524413980667603649783483181312245762 = [0x64, 0xff, 0x9b, 0, 0, 0, 0, 0, 0, 0, 0, 0, 0, 0, 2]"
  by (simp add: Bytes.simps[of 524413980667603649783483181312245762] Bytes.simps[of 2048492111982826756966731177000960] Bytes.simps[of 8001922312432917019401293660160] Bytes.simps[of 31257509032941082107036303360] Bytes.simps[of 122099644659926101980610560] Bytes.simps[of 476951736952836335861760] Bytes.simps[of 1863092722472016936960] Bytes.simps[of 7277705947156316160] Bytes.simps[of 28428538856079360] Bytes.simps[of 111048979906560] Bytes.simps[of 433785077760] Bytes.simps[of 1694472960] Bytes.simps[of 6619035] Bytes.simps[of 25855] Bytes.simps[of 100] Bytes.simps[of 0])

text \<open>
  C1 (the code at an address with a leading zero byte). The range holds the one address
  64:ff9b::2, and that address is allocated. Every address of every range is in the
  exclusion set, yet the call returns no error: it returns the 15-byte slice that
  \<open>big.Int.Bytes\<close> gives for the integer of the address, which \<open>Equal\<close> matches against
  no 4-byte or 16-byte address. The same happens on the IPv4 range of the one address
  0.0.0.5, allocated (in the 16-byte form \<open>net.ParseIP\<close> gives): the call returns the
  one-byte slice \<open>[5]\<close>.
\<close>

theorem uplinkAllocateIP_leading_zero:
  "uplinkAllocateIP
     [\<lparr>Start = [0, 0x64, 0xff, 0x9b, 0, 0, 0, 0, 0, 0, 0, 0, 0, 0, 0, 2],
       End = Some [0, 0x64, 0xff, 0x9b, 0, 0, 0, 0, 0, 0, 0, 0, 0, 0, 0, 2]\<rparr>]
     [[0, 0x64, 0xff, 0x9b, 0, 0, 0, 0, 0, 0, 0, 0, 0, 0, 0, 2]] =
   Inr [0x64, 0xff, 0x9b, 0, 0, 0, 0, 0, 0, 0, 0, 0, 0, 0, 2] \<and>
   uplinkAllocateIP [\<lparr>Start = [0, 0, 0, 5], End = Some [0, 0, 0, 5]\<rparr>]
     [[0, 0, 0, 0, 0, 0, 0, 0, 0, 0, 0xff, 0xff, 0, 0, 0, 5]] = Inr [5]"
  by (simp add: nativeIP_def To4_def To16_def isZeros_def bytesToNat_def
      scanRange.simps[of 524413980667603649783483181312245762] Bytes_v6_example
      scanRange.simps[of 5 5] Bytes_5 Equal_def)

text \<open>
  What the scan does in general, on the integers of a range: it returns the bytes of the
  first integer from the start whose bytes are \<open>Equal\<close> to no allocated address, and
  nothing exactly when the bytes of every integer of the range are \<open>Equal\<close> to an
  allocated address. The defect above lies in the bytes: for an address with leading zero
  bytes they are shorter than the address.
\<close>

lemma scanRange_None_iff:
  "scanRange startBig endBig allAllocated = None \<longleftrightarrow>
     (\<forall>n. startBig \<le> n \<and> n \<le> endBig \<longrightarrow> list_ex (Equal (Bytes n)) allAllocated)"
proof (induction startBig endBig allAllocated rule: scanRange.induct)
  case (1 startBig endBig allAllocated)
  show ?case
  proof (cases "startBig > endBig")
    case True
    then show ?thesis by (auto simp: scanRange.simps[of startBig])
  next
    case False
    show ?thesis
    proof (cases "list_ex (Equal (Bytes startBig)) allAllocated")
      case True
      have "(\<forall>n. startBig \<le> n \<and> n \<le> endBig \<longrightarrow> list_ex (Equal (Bytes n)) allAllocated) \<longleftrightarrow>
            (\<forall>n. startBig + 1 \<le> n \<and> n \<le> endBig \<longrightarrow> list_ex (Equal (Bytes n)) allAllocated)"
      proof
        assume "\<forall>n. startBig \<le> n \<and> n \<le> endBig \<longrightarrow> list_ex (Equal (Bytes n)) allAllocated"
        then show "\<forall>n. startBig + 1 \<le> n \<and> n \<le> endBig \<longrightarrow> list_ex (Equal (Bytes n)) allAllocated"
          by auto
      next
        assume r: "\<forall>n. startBig + 1 \<le> n \<and> n \<le> endBig \<longrightarrow> list_ex (Equal (Bytes n)) allAllocated"
        show "\<forall>n. startBig \<le> n \<and> n \<le> endBig \<longrightarrow> list_ex (Equal (Bytes n)) allAllocated"
        proof (intro allI impI)
          fix n assume n: "startBig \<le> n \<and> n \<le> endBig"
          show "list_ex (Equal (Bytes n)) allAllocated"
          proof (cases "n = startBig")
            case True
            with \<open>list_ex (Equal (Bytes startBig)) allAllocated\<close> show ?thesis by simp
          next
            case False
            with n have "startBig + 1 \<le> n \<and> n \<le> endBig" by simp
            with r show ?thesis by blast
          qed
        qed
      qed
      with 1[OF False refl True] False True show ?thesis
        by (simp add: scanRange.simps[of startBig])
    next
      case free: False
      with False show ?thesis
        by (auto simp: scanRange.simps[of startBig] Let_def)
    qed
  qed
qed

lemma scanRange_Some:
  "scanRange startBig endBig allAllocated = Some ip \<Longrightarrow>
     \<exists>n. startBig \<le> n \<and> n \<le> endBig \<and> ip = Bytes n \<and>
         \<not> list_ex (Equal ip) allAllocated \<and>
         (\<forall>m. startBig \<le> m \<and> m < n \<longrightarrow> list_ex (Equal (Bytes m)) allAllocated)"
proof (induction startBig endBig allAllocated rule: scanRange.induct)
  case (1 startBig endBig allAllocated)
  from "1.prems" have le: "\<not> startBig > endBig"
    by (auto simp: scanRange.simps[of startBig] split: if_splits)
  show ?case
  proof (cases "list_ex (Equal (Bytes startBig)) allAllocated")
    case True
    with "1.prems" le have "scanRange (startBig + 1) endBig allAllocated = Some ip"
      by (simp add: scanRange.simps[of startBig])
    from "1.IH"[OF le refl True this] obtain n where
      n: "startBig + 1 \<le> n" "n \<le> endBig" "ip = Bytes n" "\<not> list_ex (Equal ip) allAllocated"
      "\<forall>m. startBig + 1 \<le> m \<and> m < n \<longrightarrow> list_ex (Equal (Bytes m)) allAllocated"
      by blast
    have "\<forall>m. startBig \<le> m \<and> m < n \<longrightarrow> list_ex (Equal (Bytes m)) allAllocated"
    proof (intro allI impI)
      fix m assume m: "startBig \<le> m \<and> m < n"
      show "list_ex (Equal (Bytes m)) allAllocated"
      proof (cases "m = startBig")
        case True
        with \<open>list_ex (Equal (Bytes startBig)) allAllocated\<close> show ?thesis by simp
      next
        case False
        with m have "startBig + 1 \<le> m \<and> m < n" by simp
        with n(5) show ?thesis by blast
      qed
    qed
    with n show ?thesis
      by (intro exI[of _ n]) simp
  next
    case False
    with "1.prems" le have "ip = Bytes startBig"
      by (simp add: scanRange.simps[of startBig] Let_def)
    with False le show ?thesis
      by (intro exI[of _ startBig]) auto
  qed
qed

lemma uplinkAllocateIP_error_iff:
  "uplinkAllocateIP ipRanges allAllocated = Inl (Error ''No free IPs available'') \<longleftrightarrow>
     list_all (\<lambda>ipRange.
        scanRange (bytesToNat (nativeIP (Start ipRange)))
          (bytesToNat (case End ipRange of None \<Rightarrow> [] | Some e \<Rightarrow> nativeIP e))
          allAllocated = None) ipRanges"
  by (induction ipRanges) (auto simp: Let_def split: option.splits)

text \<open>On a range of addresses without leading zero bytes the scan passes over an
  allocated address and returns the next one, and reports exhaustion.\<close>

lemma Bytes_v4_example:
  "Bytes 3221225994 = [192, 0, 2, 10]" "Bytes 3221225995 = [192, 0, 2, 11]"
  by (simp_all add: Bytes.simps[of 3221225994] Bytes.simps[of 12582914] Bytes.simps[of 49152] Bytes.simps[of 192] Bytes.simps[of 0] Bytes.simps[of 3221225995])

lemma uplinkAllocateIP_example:
  "uplinkAllocateIP [\<lparr>Start = [192, 0, 2, 10], End = Some [192, 0, 2, 11]\<rparr>]
     [v4mapped [192, 0, 2, 10]] = Inr [192, 0, 2, 11] \<and>
   uplinkAllocateIP [\<lparr>Start = [192, 0, 2, 10], End = Some [192, 0, 2, 11]\<rparr>]
     [v4mapped [192, 0, 2, 10], v4mapped [192, 0, 2, 11]] =
     Inl (Error ''No free IPs available'')"
  by (simp add: nativeIP_def To4_def bytesToNat_def v4mapped_def v4InV6Prefix_def
      scanRange.simps[of 3221225994] scanRange.simps[of 3221225995] scanRange.simps[of 3221225996]
      Bytes_v4_example Equal_def)

subsection \<open>DHCPv4 reservations\<close>

lemma Equal_sym: "Equal a b = Equal b a"
  by (auto simp: Equal_def)

lemma hasDHCPv4Reservation_iff:
  "hasDHCPv4Reservation rs ip \<longleftrightarrow> list_ex (\<lambda>x. End x = None \<and> Equal (Start x) ip) rs"
  by (induction rs) auto

lemma noDuplicateSingle_append_single:
  "noDuplicateSingle (rs @ [\<lparr>Start = ip, End = None\<rparr>]) \<longleftrightarrow>
     noDuplicateSingle rs \<and> \<not> hasDHCPv4Reservation rs ip"
proof (induction rs)
  case Nil
  then show ?case by simp
next
  case (Cons r rs)
  show ?case
  proof (cases "End r = None")
    case True
    have "Equal ip (Start r) = Equal (Start r) ip" by (rule Equal_sym)
    with True Cons show ?thesis
      by (auto simp: hasDHCPv4Reservation_iff list_ex_iff)
  next
    case False
    with Cons show ?thesis by auto
  qed
qed

lemma InstanceDevicePortAdd_written:
  assumes "GetLogicalSwitchDHCPv4Revervations env = Inr rs"
    and "written (InstanceDevicePortAdd env instanceUUID deviceName deviceConfig) = Some w"
  shows "\<exists>ip. w = rs @ [\<lparr>Start = ip, End = None\<rparr>] \<and> \<not> hasDHCPv4Reservation rs ip"
  using assms
  by (auto simp: InstanceDevicePortAdd_def Let_def split: sum.splits option.splits if_splits)

lemma ensureReservation_written:
  assumes "ensureReservation env opts rs d = (Some w, f)"
  shows "\<exists>ip. w = rs @ [\<lparr>Start = ip, End = None\<rparr>] \<and> \<not> hasDHCPv4Reservation rs ip"
  using assms
  by (auto simp: ensureReservation_def Let_def split: option.splits if_splits)

lemma InstanceDevicePortStart_request_reads:
  assumes "GetLogicalSwitchDHCPv4Revervations env = Inr rs"
    and "InstanceDevicePortStart_request env opts = Inr req"
  shows "readReservations req = rs"
  using assms
  by (auto simp: InstanceDevicePortStart_request_def split: sum.splits option.splits if_splits prod.splits)

lemma InstanceDevicePortStart_afterRequest_written:
  assumes "InstanceDevicePortStart_afterRequest env opts req = (Some w, f)"
  shows "\<exists>ip. w = readReservations req @ [\<lparr>Start = ip, End = None\<rparr>] \<and>
              \<not> hasDHCPv4Reservation (readReservations req) ip"
  using assms ensureReservation_written
  by (fastforce simp: InstanceDevicePortStart_afterRequest_def Let_def
      split: sum.splits option.splits)

lemma InstanceDevicePortStart_written:
  assumes "GetLogicalSwitchDHCPv4Revervations env = Inr rs"
    and "written (InstanceDevicePortStart env opts) = Some w"
  shows "\<exists>ip. w = rs @ [\<lparr>Start = ip, End = None\<rparr>] \<and> \<not> hasDHCPv4Reservation rs ip"
proof (cases "InstanceDevicePortStart_request env opts")
  case (Inl e)
  with assms(2) show ?thesis by (simp add: InstanceDevicePortStart_def)
next
  case (Inr req)
  obtain w' f where a: "InstanceDevicePortStart_afterRequest env opts req = (w', f)"
    by (cases "InstanceDevicePortStart_afterRequest env opts req") auto
  with Inr assms(2) have "w' = Some w" by (simp add: InstanceDevicePortStart_def)
  with a InstanceDevicePortStart_afterRequest_written[of env opts req w f]
    InstanceDevicePortStart_request_reads[OF assms(1) Inr]
  show ?thesis by simp
qed

text \<open>
  C9. When the reservation list of the switch has no duplicate single-address entry, every
  list that \<open>InstanceDevicePortAdd\<close> or \<open>InstanceDevicePortStart\<close> writes back is that list
  with one single-address entry appended whose address \<open>hasDHCPv4Reservation\<close> did not
  find in it, and has no duplicate single-address entry either.
\<close>

theorem reservations_no_duplicate_single:
  assumes "GetLogicalSwitchDHCPv4Revervations env = Inr rs"
    and "noDuplicateSingle rs"
  shows "(\<forall>w. written (InstanceDevicePortAdd env instanceUUID deviceName deviceConfig) = Some w \<longrightarrow>
            (\<exists>ip. w = rs @ [\<lparr>Start = ip, End = None\<rparr>] \<and> \<not> hasDHCPv4Reservation rs ip) \<and>
            noDuplicateSingle w) \<and>
         (\<forall>w. written (InstanceDevicePortStart env opts) = Some w \<longrightarrow>
            (\<exists>ip. w = rs @ [\<lparr>Start = ip, End = None\<rparr>] \<and> \<not> hasDHCPv4Reservation rs ip) \<and>
            noDuplicateSingle w)"
proof (intro conjI allI impI)
  fix w
  assume "written (InstanceDevicePortAdd env instanceUUID deviceName deviceConfig) = Some w"
  from InstanceDevicePortAdd_written[OF assms(1) this]
  show e: "\<exists>ip. w = rs @ [\<lparr>Start = ip, End = None\<rparr>] \<and> \<not> hasDHCPv4Reservation rs ip" .
  then show "noDuplicateSingle w"
    using assms(2) by (auto simp: noDuplicateSingle_append_single)
next
  fix w
  assume "written (InstanceDevicePortStart env opts) = Some w"
  from InstanceDevicePortStart_written[OF assms(1) this]
  show e: "\<exists>ip. w = rs @ [\<lparr>Start = ip, End = None\<rparr>] \<and> \<not> hasDHCPv4Reservation rs ip" .
  then show "noDuplicateSingle w"
    using assms(2) by (auto simp: noDuplicateSingle_append_single)
qed

lemma example_nic_env_simps:
  "GetLogicalSwitchDHCPv4Revervations (example_nic_env rs ps) = Inr rs"
  "GetLogicalSwitchIPs (example_nic_env rs ps) = Inr ps"
  "DHCPv4Subnet (example_nic_env rs ps) = Some \<lparr>NetIP = [10, 0, 0, 0], Mask = [0xff, 0xff, 0xff, 0]\<rparr>"
  "DHCPv6Subnet (example_nic_env rs ps) = None"
  "ParseIP (example_nic_env rs ps) = example_ParseIP"
  "IPString (example_nic_env rs ps) = example_IPString"
  "SubnetContainsIP (example_nic_env rs ps) = example_SubnetContainsIP"
  "IPInSlice (example_nic_env rs ps) = (\<lambda>key list. list_ex (\<lambda>entry. Equal entry key) list)"
  "getDhcpOptionUUIDs (example_nic_env rs ps) = Inr (''dhcp4'', [])"
  "ParseMAC (example_nic_env rs ps) = (\<lambda>_. Inr [0x10, 0x66, 0x6a, 1, 2, 3])"
  "instanceDevicePortRoutesParse (example_nic_env rs ps) = (\<lambda>_. None)"
  "getInstanceDevicePortName (example_nic_env rs ps) = (\<lambda>u d. ''incus-net1-instance-'' @ u @ ''-'' @ d)"
  "ServerName (example_nic_env rs ps) = ''node1''"
  "getDomainName (example_nic_env rs ps) = ''incus''"
  "IsTrue (example_nic_env rs ps) = (\<lambda>s. s = ''true'')"
  "CreateLogicalSwitchPort (example_nic_env rs ps) = (\<lambda>_ _. None)"
  "CreateLogicalRouterNAT (example_nic_env rs ps) = (\<lambda>_ _. None)"
  "GetLogicalSwitchPortDynamicIPs (example_nic_env rs ps) =
     (\<lambda>_ i. if i < 2 then PollIPs [] else PollIPs [[10, 0, 0, 9]])"
  "UpdateLogicalSwitchPortDNS (example_nic_env rs ps) = (\<lambda>_ _ _. Inr ''dns1'')"
  "UpdateLogicalSwitchDHCPv4Revervations (example_nic_env rs ps) = (\<lambda>_. None)"
  by (simp_all add: example_nic_env_def)

lemma To4_v4mapped: "length v = 4 \<Longrightarrow> To4 (v4mapped v) = Some v"
  by (simp add: To4_def v4mapped_def v4InV6Prefix_def isZeros_def)

lemma To4_len4: "length v = 4 \<Longrightarrow> To4 v = Some v"
  by (simp add: To4_def)

lemma Equal_v4mapped:
  "length a = 4 \<Longrightarrow> length b = 4 \<Longrightarrow> Equal (v4mapped a) (v4mapped b) = (a = b)"
  by (simp add: Equal_def v4mapped_def)

lemma example_Add_new:
  "InstanceDevicePortAdd (example_nic_env [\<lparr>Start = v4mapped [10, 0, 0, 5], End = None\<rparr>] [])
       ''u1'' ''eth0'' [''ipv4.address'' \<mapsto> ''10.0.0.6''] =
   \<lparr>requested = None,
    written = Some [\<lparr>Start = v4mapped [10, 0, 0, 5], End = None\<rparr>,
                    \<lparr>Start = v4mapped [10, 0, 0, 6], End = None\<rparr>],
    failure = None\<rparr>"
  by (simp add: InstanceDevicePortAdd_def example_nic_env_simps cfg_def example_ParseIP_def
      Equal_v4mapped)

lemma example_Add_again:
  "InstanceDevicePortAdd (example_nic_env [\<lparr>Start = v4mapped [10, 0, 0, 5], End = None\<rparr>] [])
       ''u1'' ''eth0'' [''ipv4.address'' \<mapsto> ''10.0.0.5''] =
   \<lparr>requested = None, written = None, failure = None\<rparr>"
  by (simp add: InstanceDevicePortAdd_def example_nic_env_simps cfg_def example_ParseIP_def
      Equal_v4mapped)

theorem reservations_no_duplicate_single_witness:
  "noDuplicateSingle [\<lparr>Start = v4mapped [10, 0, 0, 5], End = None\<rparr>] \<and>
   written (InstanceDevicePortAdd
       (example_nic_env [\<lparr>Start = v4mapped [10, 0, 0, 5], End = None\<rparr>] [])
       ''u1'' ''eth0'' [''ipv4.address'' \<mapsto> ''10.0.0.6'']) =
     Some [\<lparr>Start = v4mapped [10, 0, 0, 5], End = None\<rparr>,
           \<lparr>Start = v4mapped [10, 0, 0, 6], End = None\<rparr>] \<and>
   written (InstanceDevicePortStart
       (example_nic_env [\<lparr>Start = v4mapped [10, 0, 0, 5], End = None\<rparr>] [])
       (example_opts [''ipv4.address'' \<mapsto> ''10.0.0.6'', ''hwaddr'' \<mapsto> ''10:66:6a:01:02:03''] [])) =
     Some [\<lparr>Start = v4mapped [10, 0, 0, 5], End = None\<rparr>,
           \<lparr>Start = v4mapped [10, 0, 0, 6], End = None\<rparr>] \<and>
   noDuplicateSingle [\<lparr>Start = v4mapped [10, 0, 0, 5], End = None\<rparr>,
                      \<lparr>Start = v4mapped [10, 0, 0, 6], End = None\<rparr>] \<and>
   written (InstanceDevicePortAdd
       (example_nic_env [\<lparr>Start = v4mapped [10, 0, 0, 5], End = None\<rparr>] [])
       ''u1'' ''eth0'' [''ipv4.address'' \<mapsto> ''10.0.0.5'']) = None"
proof -
  let ?rs = "[\<lparr>Start = v4mapped [10, 0, 0, 5], End = None\<rparr>]"
  let ?w = "[\<lparr>Start = v4mapped [10, 0, 0, 5], End = None\<rparr>,
             \<lparr>Start = v4mapped [10, 0, 0, 6], End = None\<rparr>]"
  let ?env = "example_nic_env ?rs []"
  let ?c6 = "[''ipv4.address'' \<mapsto> ''10.0.0.6'']"
  let ?opts = "example_opts [''ipv4.address'' \<mapsto> ''10.0.0.6'', ''hwaddr'' \<mapsto> ''10:66:6a:01:02:03''] []"
  have g: "GetLogicalSwitchDHCPv4Revervations ?env = Inr ?rs"
    by (simp add: example_nic_env_simps)
  have nd: "noDuplicateSingle ?rs" by simp
  have a: "written (InstanceDevicePortAdd ?env ''u1'' ''eth0'' ?c6) = Some ?w"
    by (simp add: example_Add_new)
  have s: "written (InstanceDevicePortStart ?env ?opts) = Some ?w"
    by code_simp
  have again: "written (InstanceDevicePortAdd ?env ''u1'' ''eth0'' [''ipv4.address'' \<mapsto> ''10.0.0.5'']) = None"
    by (simp add: example_Add_again)
  from reservations_no_duplicate_single[OF g nd, of "''u1''" "''eth0''" ?c6 ?opts] a s
  have "noDuplicateSingle ?w" by blast
  with nd a s again show ?thesis by blast
qed

subsection \<open>The sticky IPv4 address\<close>

lemma InstanceDevicePortStart_request_ipv4:
  assumes "InstanceDevicePortStart_request env opts = Inr req"
    and "DHCPv4Subnet env = Some dhcpv4Subnet"
  shows "requestedIPv4 env opts (readReservations req) dhcpv4Subnet = Inr (IPV4 (portOpts req))"
  using assms
  by (auto simp: InstanceDevicePortStart_request_def
      split: sum.splits option.splits if_splits prod.splits)

lemma InstanceDevicePortStart_requested:
  assumes "requested (InstanceDevicePortStart env opts) = Some (name, po)"
  shows "\<exists>req. InstanceDevicePortStart_request env opts = Inr req \<and> name = portName req \<and>
               po = portOpts req"
  using assms
  by (auto simp: InstanceDevicePortStart_def split: sum.splits prod.splits)

lemma requestedIPv4_sticky:
  assumes "cfg (DeviceConfig opts) ''ipv4.address'' = []"
    and "stickyCandidate env dhcpv4Subnet (LastStateIPs opts) = Some sticky"
    and "GetLogicalSwitchIPs env = Inr existingPortIPs"
  shows "requestedIPv4 env opts dhcpReservations dhcpv4Subnet =
           Inr (if \<not> hasDHCPv4Reservation dhcpReservations sticky \<and>
                   \<not> list_ex (IPInSlice env sticky) existingPortIPs
                then IPString env sticky else [])"
  using assms by (auto simp: requestedIPv4_def Let_def)

text \<open>Without a candidate, and without a static address, no address is requested.\<close>

lemma requestedIPv4_no_candidate:
  assumes "cfg (DeviceConfig opts) ''ipv4.address'' = []"
    and "stickyCandidate env dhcpv4Subnet (LastStateIPs opts) = None"
  shows "requestedIPv4 env opts dhcpReservations dhcpv4Subnet = Inr []"
  using assms by (simp add: requestedIPv4_def)

text \<open>
  C2 (as the code has it). For a NIC without a static \<open>ipv4.address\<close> on a network with a
  DHCPv4 subnet, let the candidate be the first IPv4 address of \<open>LastStateIPs\<close> inside
  that subnet. The block that settles the IPv4 address returns the candidate, printed,
  when it has no single-address reservation and is in the address set of no existing
  switch port, and the empty string (dynamic allocation) otherwise; and whenever
  \<open>InstanceDevicePortStart\<close> reaches the creation of the port, the request carries that
  value as its IPv4 address.
\<close>

theorem sticky_ipv4_first_candidate:
  assumes "cfg (DeviceConfig opts) ''ipv4.address'' = []"
    and "DHCPv4Subnet env = Some dhcpv4Subnet"
    and "stickyCandidate env dhcpv4Subnet (LastStateIPs opts) = Some sticky"
    and "GetLogicalSwitchDHCPv4Revervations env = Inr dhcpReservations"
    and "GetLogicalSwitchIPs env = Inr existingPortIPs"
  shows "requestedIPv4 env opts dhcpReservations dhcpv4Subnet =
           Inr (if \<not> hasDHCPv4Reservation dhcpReservations sticky \<and>
                   \<not> list_ex (IPInSlice env sticky) existingPortIPs
                then IPString env sticky else []) \<and>
         (\<forall>name po. requested (InstanceDevicePortStart env opts) = Some (name, po) \<longrightarrow>
            IPV4 po =
              (if \<not> hasDHCPv4Reservation dhcpReservations sticky \<and>
                  \<not> list_ex (IPInSlice env sticky) existingPortIPs
               then IPString env sticky else []))"
proof (intro conjI allI impI)
  show r: "requestedIPv4 env opts dhcpReservations dhcpv4Subnet =
           Inr (if \<not> hasDHCPv4Reservation dhcpReservations sticky \<and>
                   \<not> list_ex (IPInSlice env sticky) existingPortIPs
                then IPString env sticky else [])"
    by (rule requestedIPv4_sticky[OF assms(1) assms(3) assms(5)])
  fix name po
  assume "requested (InstanceDevicePortStart env opts) = Some (name, po)"
  then obtain req where req: "InstanceDevicePortStart_request env opts = Inr req"
    and po: "po = portOpts req"
    using InstanceDevicePortStart_requested by blast
  have "readReservations req = dhcpReservations"
    by (rule InstanceDevicePortStart_request_reads[OF assms(4) req])
  with InstanceDevicePortStart_request_ipv4[OF req assms(2)] r po
  show "IPV4 po =
          (if \<not> hasDHCPv4Reservation dhcpReservations sticky \<and>
              \<not> list_ex (IPInSlice env sticky) existingPortIPs
           then IPString env sticky else [])"
    by simp
qed

theorem sticky_ipv4_first_candidate_witness:
  "stickyCandidate (example_nic_env [] [])
       \<lparr>NetIP = [10, 0, 0, 0], Mask = [0xff, 0xff, 0xff, 0]\<rparr>
       [[0xfd, 0x42, 0, 0, 0, 0, 0, 0, 0, 0, 0, 0, 0, 0, 0, 7], [10, 0, 0, 5]] =
     Some [10, 0, 0, 5] \<and>
   requestedIPv4 (example_nic_env [] [])
       (example_opts [''hwaddr'' \<mapsto> ''10:66:6a:01:02:03'']
          [[0xfd, 0x42, 0, 0, 0, 0, 0, 0, 0, 0, 0, 0, 0, 0, 0, 7], [10, 0, 0, 5]])
       [] \<lparr>NetIP = [10, 0, 0, 0], Mask = [0xff, 0xff, 0xff, 0]\<rparr> = Inr ''10.0.0.5'' \<and>
   requestedIPv4 (example_nic_env [] [[v4mapped [10, 0, 0, 5]]])
       (example_opts [''hwaddr'' \<mapsto> ''10:66:6a:01:02:03'']
          [[0xfd, 0x42, 0, 0, 0, 0, 0, 0, 0, 0, 0, 0, 0, 0, 0, 7], [10, 0, 0, 5]])
       [] \<lparr>NetIP = [10, 0, 0, 0], Mask = [0xff, 0xff, 0xff, 0]\<rparr> = Inr [] \<and>
   requested (InstanceDevicePortStart (example_nic_env [] [])
       (example_opts [''hwaddr'' \<mapsto> ''10:66:6a:01:02:03'']
          [[0xfd, 0x42, 0, 0, 0, 0, 0, 0, 0, 0, 0, 0, 0, 0, 0, 7], [10, 0, 0, 5]])) =
     Some (''incus-net1-instance-u1-eth0'',
        \<lparr>DHCPv4OptsID = ''dhcp4'', DHCPv6OptsID = [], MAC = [16, 102, 106, 1, 2, 3],
         IPV4 = ''10.0.0.5'', IPV6 = [], Parent = [], VLAN = 0, Location = ''node1'',
         Promiscuous = False\<rparr>)"
proof -
  let ?net = "\<lparr>NetIP = [10, 0, 0, 0], Mask = [0xff, 0xff, 0xff, 0]\<rparr>"
  let ?last = "[[0xfd, 0x42, 0, 0, 0, 0, 0, 0, 0, 0, 0, 0, 0, 0, 0, 7], [10, 0, 0, 5]] :: IP list"
  let ?opts = "example_opts [''hwaddr'' \<mapsto> ''10:66:6a:01:02:03''] ?last"
  let ?free = "example_nic_env [] []"
  let ?bound = "example_nic_env [] [[v4mapped [10, 0, 0, 5]]]"
  have nostatic: "cfg (DeviceConfig ?opts) ''ipv4.address'' = []"
    by (simp add: example_opts_def cfg_def)
  have last: "LastStateIPs ?opts = ?last"
    by (simp add: example_opts_def)
  have candf: "stickyCandidate ?free ?net ?last = Some [10, 0, 0, 5]"
    by code_simp
  have candb: "stickyCandidate ?bound ?net ?last = Some [10, 0, 0, 5]"
    by code_simp
  have str: "example_IPString [10, 0, 0, 5] = ''10.0.0.5''"
    by (simp add: example_IPString_def To4_def)
  have isbound: "list_ex (\<lambda>entry. Equal entry [10, 0, 0, 5]) [v4mapped [10, 0, 0, 5]]"
    by (simp add: Equal_def v4mapped_def v4InV6Prefix_def)
  have f: "requestedIPv4 ?free ?opts [] ?net = Inr ''10.0.0.5''"
    using sticky_ipv4_first_candidate[of ?opts ?free ?net "[10, 0, 0, 5]" "[]" "[]"]
      nostatic candf last str
    by (simp add: example_nic_env_simps)
  have b: "requestedIPv4 ?bound ?opts [] ?net = Inr []"
    using sticky_ipv4_first_candidate[of ?opts ?bound ?net "[10, 0, 0, 5]" "[]"
        "[[v4mapped [10, 0, 0, 5]]]"]
      nostatic candb last isbound
    by (simp add: example_nic_env_simps)
  have p: "requested (InstanceDevicePortStart ?free ?opts) =
     Some (''incus-net1-instance-u1-eth0'',
        \<lparr>DHCPv4OptsID = ''dhcp4'', DHCPv6OptsID = [], MAC = [16, 102, 106, 1, 2, 3],
         IPV4 = ''10.0.0.5'', IPV6 = [], Parent = [], VLAN = 0, Location = ''node1'',
         Promiscuous = False\<rparr>)"
    by code_simp
  from candf f b p show ?thesis by blast
qed

text \<open>
  The rule read for every address of \<open>LastStateIPs\<close> fails when an earlier address is
  the candidate: with the last addresses 10.0.0.5 and 10.0.0.6, both inside the subnet,
  10.0.0.5 reserved and 10.0.0.6 neither reserved nor on any port, the search stops at
  10.0.0.5, and the port is requested without an IPv4 address, not with 10.0.0.6.
\<close>

theorem sticky_ipv4_later_address_counterexample:
  "cfg (DeviceConfig (example_opts [''hwaddr'' \<mapsto> ''10:66:6a:01:02:03'']
          [[10, 0, 0, 5], [10, 0, 0, 6]])) ''ipv4.address'' = [] \<and>
   [10, 0, 0, 6] \<in> set (LastStateIPs (example_opts [''hwaddr'' \<mapsto> ''10:66:6a:01:02:03'']
          [[10, 0, 0, 5], [10, 0, 0, 6]])) \<and>
   To4 [10, 0, 0, 6] \<noteq> None \<and>
   SubnetContainsIP (example_nic_env [\<lparr>Start = v4mapped [10, 0, 0, 5], End = None\<rparr>] [])
     \<lparr>NetIP = [10, 0, 0, 0], Mask = [0xff, 0xff, 0xff, 0]\<rparr> [10, 0, 0, 6] \<and>
   \<not> hasDHCPv4Reservation [\<lparr>Start = v4mapped [10, 0, 0, 5], End = None\<rparr>] [10, 0, 0, 6] \<and>
   \<not> list_ex (IPInSlice (example_nic_env [\<lparr>Start = v4mapped [10, 0, 0, 5], End = None\<rparr>] [])
               [10, 0, 0, 6]) [] \<and>
   IPString (example_nic_env [\<lparr>Start = v4mapped [10, 0, 0, 5], End = None\<rparr>] [])
     [10, 0, 0, 6] = ''10.0.0.6'' \<and>
   requested (InstanceDevicePortStart
       (example_nic_env [\<lparr>Start = v4mapped [10, 0, 0, 5], End = None\<rparr>] [])
       (example_opts [''hwaddr'' \<mapsto> ''10:66:6a:01:02:03''] [[10, 0, 0, 5], [10, 0, 0, 6]])) =
     Some (''incus-net1-instance-u1-eth0'',
        \<lparr>DHCPv4OptsID = ''dhcp4'', DHCPv6OptsID = [], MAC = [16, 102, 106, 1, 2, 3],
         IPV4 = [], IPV6 = [], Parent = [], VLAN = 0, Location = ''node1'',
         Promiscuous = False\<rparr>)"
  by code_simp

subsection \<open>BGP export\<close>

lemma exportAddresses_all:
  assumes "list_all (\<lambda>a. exportable env ipVersion a \<longrightarrow>
                    \<not> isl (bgp_ParseCIDR env (hostRouteText env ipVersion a)) \<and>
                    addFails env (hostRouteOf env ipVersion a) = None) as"
  shows "exportAddresses env ipVersion as table =
           (None, table @ map (\<lambda>a. \<lparr>prefix = hostRouteOf env ipVersion a,
                                     nextHop = bgpNextHopAddress env ipVersion,
                                     owner = bgpOwner env\<rparr>)
                            (filter (exportable env ipVersion) as))"
  using assms
proof (induction as arbitrary: table)
  case Nil
  then show ?case by simp
next
  case (Cons a as)
  then have rest: "list_all (\<lambda>a. exportable env ipVersion a \<longrightarrow>
                    \<not> isl (bgp_ParseCIDR env (hostRouteText env ipVersion a)) \<and>
                    addFails env (hostRouteOf env ipVersion a) = None) as"
    by simp
  show ?case
  proof (cases "exportable env ipVersion a")
    case False
    then show ?thesis
      using Cons.IH[OF rest] by (auto simp: exportable_def Let_def)
  next
    case True
    with Cons.prems obtain sn where
      p: "bgp_ParseCIDR env (hostRouteText env ipVersion a) = Inr sn"
      and ok: "addFails env (hostRouteOf env ipVersion a) = None"
      by (cases "bgp_ParseCIDR env (hostRouteText env ipVersion a)") auto
    from p have h: "hostRouteOf env ipVersion a = sn"
      by (simp add: hostRouteOf_def)
    from True have c: "\<not> insideNAT env ipVersion a"
      "lbOnlineAmong env (bgp_ParseIP env a) [''tcp'', ''udp'']"
      by (simp_all add: exportable_def)
    have p': "bgp_ParseCIDR env (bgp_IPString env (bgp_ParseIP env a) @ ''/'' @
                routeSubnetSizeText ipVersion) = Inr sn"
      using p by (simp add: hostRouteText_def)
    show ?thesis
      using True c p' ok h Cons.IH[OF rest]
      by (simp add: Let_def AddPrefix_def)
  qed
qed

lemma exportFamilies_all:
  assumes "callsSucceed env"
  shows "exportFamilies env (listenAddressesByFamily (dbLoadBalancers env)) [4, 6] table =
           (None, table @ exportedPrefixes env 4 (dbLoadBalancers env) @
                  exportedPrefixes env 6 (dbLoadBalancers env))"
proof -
  have a: "list_all (\<lambda>a. exportable env v a \<longrightarrow>
                    \<not> isl (bgp_ParseCIDR env (hostRouteText env v a)) \<and>
                    addFails env (hostRouteOf env v a) = None)
             (listenAddressesByFamily (dbLoadBalancers env) v)"
    if "v = 4 \<or> v = 6" for v
    using assms that
    by (auto simp: callsSucceed_def)
  have four: "exportAddresses env 4 (listenAddressesByFamily (dbLoadBalancers env) 4) table =
                (None, table @ exportedPrefixes env 4 (dbLoadBalancers env))"
    using exportAddresses_all[OF a[of 4]] by (simp add: exportedPrefixes_def)
  have six: "exportAddresses env 6 (listenAddressesByFamily (dbLoadBalancers env) 6) t =
                (None, t @ exportedPrefixes env 6 (dbLoadBalancers env))" for t
    using exportAddresses_all[OF a[of 6]] by (simp add: exportedPrefixes_def)
  show ?thesis
    by (simp add: four six)
qed

lemma exportedPrefixes_owner:
  "p \<in> set (exportedPrefixes env v as) \<Longrightarrow> owner p = bgpOwner env"
  by (auto simp: exportedPrefixes_def)

lemma exportedPrefixes_not_kept:
  "filter (\<lambda>p. owner p \<noteq> bgpOwner env) (exportedPrefixes env v as) = []"
  by (induction as) (auto simp: exportedPrefixes_def listenAddressesByFamily_def)

text \<open>
  C8 (as the code has it). When the database transaction and the BGP calls succeed,
  \<open>loadBalancerBGPSetupPrefixes\<close> leaves the exported prefixes as: the prefixes of other
  owners, kept; none of the former prefixes under the network's load-balancer owner; and,
  for the listen addresses of the network's load balancers only, IPv4 then IPv6, a host
  route for each address that is not inside a NAT-enabled subnet and whose load balancer
  is online. Running it a second time changes nothing.
\<close>

theorem loadBalancerBGPSetupPrefixes_export:
  assumes "callsSucceed env"
  shows "loadBalancerBGPSetupPrefixes env table =
           (None, filter (\<lambda>p. owner p \<noteq> bgpOwner env) table @
                  exportedPrefixes env 4 (dbLoadBalancers env) @
                  exportedPrefixes env 6 (dbLoadBalancers env)) \<and>
         loadBalancerBGPSetupPrefixes env (snd (loadBalancerBGPSetupPrefixes env table)) =
           loadBalancerBGPSetupPrefixes env table"
proof -
  let ?new = "exportedPrefixes env 4 (dbLoadBalancers env) @
              exportedPrefixes env 6 (dbLoadBalancers env)"
  have ok: "transactionFails env = None" "removeFails env = None"
    using assms by (simp_all add: callsSucceed_def)
  have run: "loadBalancerBGPSetupPrefixes env t =
               (None, filter (\<lambda>p. owner p \<noteq> bgpOwner env) t @ ?new)" for t
    using exportFamilies_all[OF assms] ok
    by (simp add: loadBalancerBGPSetupPrefixes_def GetNetworkLoadBalancers_def
        RemovePrefixByOwner_def)
  show ?thesis
    by (simp add: run exportedPrefixes_not_kept)
qed

theorem loadBalancerBGPSetupPrefixes_export_witness:
  "callsSucceed (example_bgp_env [''192.0.2.10'', ''192.0.2.11'', ''10.0.0.50''] []
      [''incus-net7-lb-192.0.2.10-tcp'', ''incus-net7-lb-10.0.0.50-udp'']) \<and>
   loadBalancerBGPSetupPrefixes
     (example_bgp_env [''192.0.2.10'', ''192.0.2.11'', ''10.0.0.50''] []
        [''incus-net7-lb-192.0.2.10-tcp'', ''incus-net7-lb-10.0.0.50-udp''])
     [\<lparr>prefix = \<lparr>NetIP = [192, 0, 2, 11], Mask = [0xff, 0xff, 0xff, 0xff]\<rparr>,
       nextHop = [198, 51, 100, 1], owner = ''network_7_load_balancer''\<rparr>,
      \<lparr>prefix = \<lparr>NetIP = [203, 0, 113, 0], Mask = [0xff, 0xff, 0xff, 0]\<rparr>,
       nextHop = [198, 51, 100, 1], owner = ''network_7''\<rparr>] =
   (None,
    [\<lparr>prefix = \<lparr>NetIP = [203, 0, 113, 0], Mask = [0xff, 0xff, 0xff, 0]\<rparr>,
      nextHop = [198, 51, 100, 1], owner = ''network_7''\<rparr>,
     \<lparr>prefix = \<lparr>NetIP = [192, 0, 2, 10], Mask = [0xff, 0xff, 0xff, 0xff]\<rparr>,
      nextHop = [198, 51, 100, 1], owner = ''network_7_load_balancer''\<rparr>])"
proof -
  let ?env = "example_bgp_env [''192.0.2.10'', ''192.0.2.11'', ''10.0.0.50''] []
      [''incus-net7-lb-192.0.2.10-tcp'', ''incus-net7-lb-10.0.0.50-udp'']"
  let ?table = "[\<lparr>prefix = \<lparr>NetIP = [192, 0, 2, 11], Mask = [0xff, 0xff, 0xff, 0xff]\<rparr>,
       nextHop = [198, 51, 100, 1], owner = ''network_7_load_balancer''\<rparr>,
      \<lparr>prefix = \<lparr>NetIP = [203, 0, 113, 0], Mask = [0xff, 0xff, 0xff, 0]\<rparr>,
       nextHop = [198, 51, 100, 1], owner = ''network_7''\<rparr>]"
  have ok: "callsSucceed ?env" by code_simp
  have kept: "filter (\<lambda>p. owner p \<noteq> bgpOwner ?env) ?table =
     [\<lparr>prefix = \<lparr>NetIP = [203, 0, 113, 0], Mask = [0xff, 0xff, 0xff, 0]\<rparr>,
       nextHop = [198, 51, 100, 1], owner = ''network_7''\<rparr>]"
    by code_simp
  have four: "exportedPrefixes ?env 4 (dbLoadBalancers ?env) =
     [\<lparr>prefix = \<lparr>NetIP = [192, 0, 2, 10], Mask = [0xff, 0xff, 0xff, 0xff]\<rparr>,
       nextHop = [198, 51, 100, 1], owner = ''network_7_load_balancer''\<rparr>]"
    by code_simp
  have six: "exportedPrefixes ?env 6 (dbLoadBalancers ?env) = []"
    by code_simp
  from loadBalancerBGPSetupPrefixes_export[OF ok, of ?table] ok kept four six
  show ?thesis by simp
qed

text \<open>
  The export as the specification words it, with the forwards' listen addresses, is not
  what the function does: on a network with one forward, listening on 192.0.2.10 outside
  the NAT-enabled subnet and with its load balancer online, and no load balancer record,
  the function exports nothing.
\<close>

theorem loadBalancerBGPSetupPrefixes_forward_counterexample:
  "callsSucceed (example_bgp_env [] [''192.0.2.10''] [''incus-net7-lb-192.0.2.10-tcp'']) \<and>
   exportable (example_bgp_env [] [''192.0.2.10''] [''incus-net7-lb-192.0.2.10-tcp'']) 4
     ''192.0.2.10'' \<and>
   loadBalancerBGPSetupPrefixes
     (example_bgp_env [] [''192.0.2.10''] [''incus-net7-lb-192.0.2.10-tcp'']) [] = (None, []) \<and>
   spec_exportedPrefixes
     (example_bgp_env [] [''192.0.2.10''] [''incus-net7-lb-192.0.2.10-tcp'']) 4 =
     [\<lparr>prefix = \<lparr>NetIP = [192, 0, 2, 10], Mask = [0xff, 0xff, 0xff, 0xff]\<rparr>,
       nextHop = [198, 51, 100, 1], owner = ''network_7_load_balancer''\<rparr>]"
  by code_simp

subsection \<open>Router MAC\<close>

text \<open>
  With \<open>bridge.hwaddr\<close> unset, the result of \<open>getRouterMAC\<close> is settled by the
  certificate's fingerprint and the network's id alone: nothing else of the network's
  configuration enters it. Whether two ids give two MAC addresses rests on
  \<open>GetStableRandomGenerator\<close> and \<open>randomHwaddr\<close>, on the seeds of the two ids.
\<close>

lemma getRouterMAC_stable:
  assumes "cfg c ''bridge.hwaddr'' = []" and "cfg c' ''bridge.hwaddr'' = []"
  shows "getRouterMAC env c n_ID = getRouterMAC env c' n_ID"
  using assms by (simp add: getRouterMAC_def)

lemma getRouterMAC_of_seed:
  assumes "cfg c ''bridge.hwaddr'' = []" and "LoadCertFingerprint env = Inr fingerprint"
    and "GetStableRandomGenerator env (routerMACSeed env fingerprint n_ID) = Inr r"
    and "mac_ParseMAC env (randomHwaddr env r) = Inr mac"
  shows "getRouterMAC env c n_ID = Inr mac"
  using assms by (simp add: getRouterMAC_def)

lemma routerMACSeed_distinct:
  assumes "inj (printDecimal env)" and "n_ID \<noteq> n_ID'"
  shows "routerMACSeed env fingerprint n_ID \<noteq> routerMACSeed env fingerprint n_ID'"
  using assms by (auto simp: routerMACSeed_def dest: injD)

end
